theory Spec2Isabelle
  imports Main "HOL-Library.AList"
begin

section \<open>Python values and exceptions\<close>

text \<open>
  The program is a single Python module, \<^verbatim>\<open>poetry_dynamic_versioning/__init__.py\<close>.
  Exceptions are values: every function that can raise returns \<open>error + 'a\<close>, with
  \<open>Inl\<close> carrying the exception. The constructor names are Python's exception classes.
\<close>

text \<open>
  A configuration is what \<^verbatim>\<open>tomlkit.parse\<close> returns, read as plain Python data: nested
  dicts (insertion ordered, hence association lists), lists and scalars.
\<close>

datatype pyval =
    PNone
  | PBool bool
  | PInt int
  | PStr string
  | PList "pyval list"
  | PDict "(string \<times> pyval) list"

text \<open>
  Two further outcomes: the ValueError of \<^verbatim>\<open>_substitute_version_in_text\<close>, which carries
  the offending mode (its message is \<^verbatim>\<open>"Invalid substitution mode: {}".format(mode)\<close>), and
  \<open>Unmodelled\<close>, which is no exception of the program: it marks a run that leaves the
  fragment of the file system this theory describes.
\<close>

datatype error =
    ValueError string
  | TypeError string
  | KeyError string
  | AttributeError string
  | RuntimeError string
  | OSError string
  | ReError string
  | External string
  | InvalidSubstitutionMode pyval
  | Unmodelled string

definition bsl :: char where "bsl = CHR 0x5C"
definition dq :: char where "dq = CHR 0x22"
definition sq :: char where "sq = CHR 0x27"
definition nl :: char where "nl = CHR 0x0A"

text \<open>Truthiness, as \<^verbatim>\<open>not x\<close> and \<^verbatim>\<open>if x:\<close> read it.\<close>

fun py_truthy :: "pyval \<Rightarrow> bool" where
  "py_truthy PNone = False"
| "py_truthy (PBool b) = b"
| "py_truthy (PInt i) = (i \<noteq> 0)"
| "py_truthy (PStr s) = (s \<noteq> [])"
| "py_truthy (PList xs) = (xs \<noteq> [])"
| "py_truthy (PDict d) = (d \<noteq> [])"

fun is_dict :: "pyval \<Rightarrow> bool" where
  "is_dict (PDict d) = True"
| "is_dict v = False"

fun starts_with :: "string \<Rightarrow> string \<Rightarrow> bool" where
  "starts_with s [] = True"
| "starts_with [] (p # ps) = False"
| "starts_with (c # cs) (p # ps) = (c = p \<and> starts_with cs ps)"

text \<open>\<^verbatim>\<open>needle in hay\<close> on two strings: substring containment.\<close>

fun str_contains :: "string \<Rightarrow> string \<Rightarrow> bool" where
  "str_contains [] needle = (needle = [])"
| "str_contains (c # cs) needle = (starts_with (c # cs) needle \<or> str_contains cs needle)"

text \<open>
  \<^verbatim>\<open>key in container\<close> for a string key: key membership in a dict, substring containment
  in a string, element equality in a list, TypeError on anything that is not iterable.
\<close>

fun py_contains :: "pyval \<Rightarrow> string \<Rightarrow> error + bool" where
  "py_contains (PDict d) key = Inr (key \<in> set (map fst d))"
| "py_contains (PStr s) key = Inr (str_contains s key)"
| "py_contains (PList xs) key = Inr (PStr key \<in> set xs)"
| "py_contains v key = Inl (TypeError ''argument is not iterable'')"

text \<open>\<^verbatim>\<open>container[key]\<close> for a string key.\<close>

fun py_getitem :: "pyval \<Rightarrow> string \<Rightarrow> error + pyval" where
  "py_getitem (PDict d) key =
     (case map_of d key of Some v \<Rightarrow> Inr v | None \<Rightarrow> Inl (KeyError key))"
| "py_getitem (PStr s) key = Inl (TypeError ''string indices must be integers'')"
| "py_getitem (PList xs) key = Inl (TypeError ''list indices must be integers'')"
| "py_getitem v key = Inl (TypeError ''object is not subscriptable'')"

text \<open>\<^verbatim>\<open>d.get(key, dflt)\<close>: only dicts have the method.\<close>

fun py_get :: "pyval \<Rightarrow> string \<Rightarrow> pyval \<Rightarrow> error + pyval" where
  "py_get (PDict d) key dflt = Inr (case map_of d key of Some v \<Rightarrow> v | None \<Rightarrow> dflt)"
| "py_get v key dflt = Inl (AttributeError ''get'')"

text \<open>\<^verbatim>\<open>sep.join(xs)\<close>.\<close>

fun py_join :: "string \<Rightarrow> string list \<Rightarrow> string" where
  "py_join sep [] = []"
| "py_join sep [x] = x"
| "py_join sep (x # y # ys) = x @ sep @ py_join sep (y # ys)"

section \<open>The default configuration\<close>

definition default_pattern_version :: string where
  "default_pattern_version =
     ''(^__version__'' @ [bsl] @ ''s*(?::.*?)?='' @ [bsl] @ ''s*['' @ [sq, bsl, dq]
       @ ''])[^'' @ [sq, bsl, dq] @ '']*(['' @ [sq, bsl, dq] @ ''])''"

definition default_pattern_tuple :: string where
  "default_pattern_tuple =
     ''(^__version_tuple__'' @ [bsl] @ ''s*(?::.*?)?='' @ [bsl] @ ''s*'' @ [bsl]
       @ ''()[^)]*('' @ [bsl] @ ''))''"

text \<open>
  \<^verbatim>\<open>_default_config()["tool"]["poetry-dynamic-versioning"]\<close>, the section every caller
  selects.
\<close>

definition default_section :: pyval where
  "default_section = PDict
     [(''enable'', PBool False),
      (''vcs'', PStr ''any''),
      (''dirty'', PBool False),
      (''pattern'', PNone),
      (''latest-tag'', PBool False),
      (''substitution'', PDict
         [(''files'', PList [PStr ''*.py'', PStr ''*/__init__.py'',
                              PStr ''*/__version__.py'', PStr ''*/_version.py'']),
          (''patterns'', PList
             [PStr default_pattern_version,
              PDict [(''value'', PStr default_pattern_tuple), (''mode'', PStr ''tuple'')]]),
          (''folders'', PList [])]),
      (''files'', PDict []),
      (''style'', PNone),
      (''metadata'', PNone),
      (''format'', PNone),
      (''format-jinja'', PNone),
      (''format-jinja-imports'', PList []),
      (''bump'', PBool False),
      (''tagged-metadata'', PBool False),
      (''full-commit'', PBool False),
      (''tag-branch'', PNone),
      (''tag-dir'', PStr ''tags''),
      (''strict'', PBool False),
      (''fix-shallow-repository'', PBool False)]"

definition default_config :: pyval where
  "default_config = PDict [(''tool'', PDict [(''poetry-dynamic-versioning'', default_section)])]"

section \<open>Validation of configuration keys\<close>

text \<open>
  \<^verbatim>\<open>escaped_key = key if "." not in key else '"{}"'.format(key)\<close> and the message
  \<^verbatim>\<open>"Unknown key: " + ".".join([*path, escaped_key])\<close>.
\<close>

definition escaped_key :: "string \<Rightarrow> string" where
  "escaped_key key = (if \<not> str_contains key ''.'' then key else [dq] @ key @ [dq])"

definition unknown_key_msg :: "string list \<Rightarrow> string \<Rightarrow> string" where
  "unknown_key_msg path key = ''Unknown key: '' @ py_join ''.'' (path @ [escaped_key key])"

text \<open>
  \<^verbatim>\<open>_validate_config_section(config, default, path)\<close>. \<open>validate_items\<close> is its
  \<^verbatim>\<open>for (key, value) in config.items()\<close> loop over the items still to visit; an exception
  raised in the body ends the loop. In the \<^verbatim>\<open>elif\<close> the source tests
  \<^verbatim>\<open>isinstance(value, dict) and isinstance(config.get(key), dict)\<close> and recurses on
  \<^verbatim>\<open>config[key]\<close>: both are the \<^verbatim>\<open>value\<close> being visited, since the keys of a dict are
  distinct. Nothing checks that \<^verbatim>\<open>default[key]\<close> is a dict.
\<close>

fun validate_config_section :: "pyval \<Rightarrow> pyval \<Rightarrow> string list \<Rightarrow> error + string list"
  and validate_items :: "(string \<times> pyval) list \<Rightarrow> pyval \<Rightarrow> string list \<Rightarrow> error + string list"
where
  "validate_config_section config dflt path =
     (if \<not> py_truthy dflt then Inr []
      else (case config of
              PDict items \<Rightarrow> validate_items items dflt path
            | _ \<Rightarrow> Inl (AttributeError ''items'')))"
| "validate_items [] dflt path = Inr []"
| "validate_items ((key, value) # rest) dflt path =
     (case py_contains dflt key of
        Inl e \<Rightarrow> Inl e
      | Inr present \<Rightarrow>
          (case (if \<not> present then Inr [unknown_key_msg path key]
                 else if is_dict value then
                   (case py_getitem dflt key of
                      Inl e \<Rightarrow> Inl e
                    | Inr sub \<Rightarrow> validate_config_section value sub (path @ [key]))
                 else Inr []) of
             Inl e \<Rightarrow> Inl e
           | Inr errors \<Rightarrow>
               (case validate_items rest dflt path of
                  Inl e \<Rightarrow> Inl e
                | Inr more \<Rightarrow> Inr (errors @ more))))"

text \<open>
  \<^verbatim>\<open>_validate_config(config)\<close> for a given configuration (the branch that reads
  \<^verbatim>\<open>pyproject.toml\<close> when \<^verbatim>\<open>config is None\<close> only supplies the argument).
\<close>

definition validate_config :: "pyval \<Rightarrow> error + string list" where
  "validate_config config =
     (case py_get config ''tool'' (PDict []) of
        Inl e \<Rightarrow> Inl e
      | Inr tool \<Rightarrow>
          (case py_get tool ''poetry-dynamic-versioning'' (PDict []) of
             Inl e \<Rightarrow> Inl e
           | Inr section \<Rightarrow>
               validate_config_section section default_section
                 [''tool'', ''poetry-dynamic-versioning'']))"

text \<open>
  The validation contract in the specification's words: a key of the user section that the
  default schema does not have at the same nesting level is reported; a key whose value is
  a mapping in both is recursed into; nothing else is looked at.
\<close>

fun unknown_keys ::
  "(string \<times> pyval) list \<Rightarrow> (string \<times> pyval) list \<Rightarrow> string list \<Rightarrow> string list"
where
  "unknown_keys [] schema path = []"
| "unknown_keys ((key, value) # rest) schema path =
     (case map_of schema key of
        None \<Rightarrow> [unknown_key_msg path key]
      | Some sub \<Rightarrow>
          (case value of
             PDict items \<Rightarrow>
               (case sub of
                  PDict subschema \<Rightarrow> unknown_keys items subschema (path @ [key])
                | _ \<Rightarrow> [])
           | _ \<Rightarrow> []))
     @ unknown_keys rest schema path"

text \<open>
  The contract as the code keeps it: the same, except that nothing is reported at a
  nesting level whose default mapping is empty.
\<close>

fun reported_keys ::
  "(string \<times> pyval) list \<Rightarrow> (string \<times> pyval) list \<Rightarrow> string list \<Rightarrow> string list"
where
  "reported_keys [] schema path = []"
| "reported_keys ((key, value) # rest) schema path =
     (if schema = [] then []
      else (case map_of schema key of
              None \<Rightarrow> [unknown_key_msg path key]
            | Some sub \<Rightarrow>
                (case value of
                   PDict items \<Rightarrow>
                     (case sub of
                        PDict subschema \<Rightarrow> reported_keys items subschema (path @ [key])
                      | _ \<Rightarrow> [])
                 | _ \<Rightarrow> []))
           @ reported_keys rest schema path)"

text \<open>
  The sections this contract is about: where the user wrote a mapping under a known key,
  the default there is a mapping too (or a falsy scalar, which ends the recursion at
  once). Below an empty default mapping anything may stand.
\<close>

fun regular :: "(string \<times> pyval) list \<Rightarrow> (string \<times> pyval) list \<Rightarrow> bool" where
  "regular [] schema = True"
| "regular ((key, value) # rest) schema =
     (if schema = [] then True
      else (case map_of schema key of
              None \<Rightarrow> True
            | Some sub \<Rightarrow>
               (case value of
                  PDict items \<Rightarrow>
                    (case sub of
                       PDict subschema \<Rightarrow> regular items subschema
                     | _ \<Rightarrow> \<not> py_truthy sub)
                | _ \<Rightarrow> True)) \<and>
           regular rest schema)"

section \<open>Python strings\<close>

text \<open>
  Strings are lists of 8-bit characters, read as ASCII. \<^verbatim>\<open>str.strip()\<close> removes the ASCII
  whitespace characters from both ends.
\<close>

definition is_space :: "char \<Rightarrow> bool" where
  "is_space c = (c \<in> set [CHR 0x09, CHR 0x0A, CHR 0x0B, CHR 0x0C, CHR 0x0D,
                            CHR 0x1C, CHR 0x1D, CHR 0x1E, CHR 0x1F, CHR 0x20])"

definition py_strip :: "string \<Rightarrow> string" where
  "py_strip s = rev (dropWhile is_space (rev (dropWhile is_space s)))"

text \<open>
  \<^verbatim>\<open>s.split(sep)\<close> for a one-character separator and \<^verbatim>\<open>re.split\<close> for a character
  class: one piece more than there are separators, empty pieces kept.
\<close>

fun split_on :: "(char \<Rightarrow> bool) \<Rightarrow> string \<Rightarrow> string list" where
  "split_on sep [] = [[]]"
| "split_on sep (c # cs) =
     (if sep c then [] # split_on sep cs
      else (case split_on sep cs of
              w # ws \<Rightarrow> (c # w) # ws
            | [] \<Rightarrow> [[c]]))"

text \<open>\<^verbatim>\<open>s.split(sep, 1)\<close>: cut at the first separator, if there is one.\<close>

definition split_once :: "char \<Rightarrow> string \<Rightarrow> string list" where
  "split_once sep s =
     (if str_contains s [sep]
      then [takeWhile (\<lambda>c. c \<noteq> sep) s, tl (dropWhile (\<lambda>c. c \<noteq> sep) s)]
      else [s])"

text \<open>
  \<^verbatim>\<open>int(s)\<close> in base 10, as CPython reads an ASCII string: the characters tab, line feed,
  vertical tab, form feed, carriage return and space are skipped at both ends (the
  separators \<open>0x1C\<close> to \<open>0x1F\<close>, which \<^verbatim>\<open>str.strip()\<close> removes, are not); then one optional
  sign; then digits with single underscores between them; a string with more than 4300
  digits is refused (the default of \<^verbatim>\<open>sys.int_info.default_max_str_digits\<close>). \<open>None\<close> is
  the ValueError.
\<close>

definition is_digit :: "char \<Rightarrow> bool" where
  "is_digit c = (48 \<le> (of_char c :: nat) \<and> (of_char c :: nat) \<le> 57)"

definition digit_val :: "char \<Rightarrow> nat" where
  "digit_val c = of_char c - 48"

definition is_int_space :: "char \<Rightarrow> bool" where
  "is_int_space c =
     (c \<in> set [CHR 0x09, CHR 0x0A, CHR 0x0B, CHR 0x0C, CHR 0x0D, CHR 0x20])"

definition int_strip :: "string \<Rightarrow> string" where
  "int_strip s = rev (dropWhile is_int_space (rev (dropWhile is_int_space s)))"

definition max_str_digits :: nat where
  "max_str_digits = 4300"

fun parse_digits :: "nat \<Rightarrow> string \<Rightarrow> nat option" where
  "parse_digits acc [] = Some acc"
| "parse_digits acc [c] = (if is_digit c then Some (10 * acc + digit_val c) else None)"
| "parse_digits acc (c # d # cs) =
     (if is_digit c then
        (if d = CHR ''_'' then
           (if cs = [] then None else parse_digits (10 * acc + digit_val c) cs)
         else parse_digits (10 * acc + digit_val c) (d # cs))
      else None)"

definition py_int :: "string \<Rightarrow> int option" where
  "py_int s =
     (case int_strip s of
        [] \<Rightarrow> None
      | c # cs \<Rightarrow>
          (if c = CHR ''-'' then
             (if cs = [] \<or> length (filter is_digit cs) > max_str_digits then None
              else map_option (\<lambda>n. - int n) (parse_digits 0 cs))
           else if c = CHR ''+'' then
             (if cs = [] \<or> length (filter is_digit cs) > max_str_digits then None
              else map_option int (parse_digits 0 cs))
           else
             (if length (filter is_digit (c # cs)) > max_str_digits then None
              else map_option int (parse_digits 0 (c # cs)))))"

text \<open>The number a string of decimal digits denotes.\<close>

definition decimal_value :: "string \<Rightarrow> nat" where
  "decimal_value ds = foldl (\<lambda>acc c. 10 * acc + digit_val c) 0 ds"

text \<open>\<^verbatim>\<open>str(i)\<close> for an integer.\<close>

fun nat_str :: "nat \<Rightarrow> string" where
  "nat_str n =
     (if n < 10 then [char_of (48 + n)] else nat_str (n div 10) @ [char_of (48 + n mod 10)])"

declare nat_str.simps [simp del]

definition py_str_int :: "int \<Rightarrow> string" where
  "py_str_int i = (if i < 0 then CHR ''-'' # nat_str (nat (- i)) else nat_str (nat i))"

section \<open>Overrides from the environment\<close>

definition BYPASS_ENV :: string where
  "BYPASS_ENV = ''POETRY_DYNAMIC_VERSIONING_BYPASS''"

definition OVERRIDE_ENV :: string where
  "OVERRIDE_ENV = ''POETRY_DYNAMIC_VERSIONING_OVERRIDE''"

text \<open>
  The \<^verbatim>\<open>for pair in pairs\<close> loop of \<^verbatim>\<open>_get_override_version\<close>; \<open>None\<close> when the loop ends
  without a \<^verbatim>\<open>return\<close>.
\<close>

fun find_override :: "string list \<Rightarrow> string \<Rightarrow> string option" where
  "find_override [] name = None"
| "find_override (pair # pairs) name =
     (if \<not> str_contains pair ''='' then find_override pairs name
      else (case split_once (CHR ''='') pair of
              [k, v] \<Rightarrow> if py_strip k = name then Some (py_strip v) else find_override pairs name
            | _ \<Rightarrow> find_override pairs name))"

text \<open>
  \<^verbatim>\<open>_get_override_version(name, env)\<close>; the environment is a map from variable names to
  values.
\<close>

definition get_override_version :: "string option \<Rightarrow> (string \<rightharpoonup> string) \<Rightarrow> string option" where
  "get_override_version name env =
     (case (case name of
              None \<Rightarrow> None
            | Some n \<Rightarrow>
                (case env OVERRIDE_ENV of
                   None \<Rightarrow> None
                 | Some raw_overrides \<Rightarrow>
                     find_override (split_on (\<lambda>c. c = CHR '','') raw_overrides) n)) of
        Some v \<Rightarrow> Some v
      | None \<Rightarrow> env BYPASS_ENV)"

text \<open>
  The override variable in the specification's words: the comma-separated pairs that have
  an \<open>=\<close>, each cut at its first \<open>=\<close> into a name and a value, both without surrounding
  whitespace.
\<close>

definition override_pairs :: "string \<Rightarrow> (string \<times> string) list" where
  "override_pairs raw =
     map (\<lambda>pair. (py_strip (takeWhile (\<lambda>c. c \<noteq> CHR ''='') pair),
                  py_strip (tl (dropWhile (\<lambda>c. c \<noteq> CHR ''='') pair))))
       (filter (\<lambda>pair. CHR ''='' \<in> set pair) (split_on (\<lambda>c. c = CHR '','') raw))"

section \<open>Version resolution\<close>

text \<open>
  The collaborators of \<^verbatim>\<open>_get_version\<close> are the \<^verbatim>\<open>dunamai\<close> library, \<^verbatim>\<open>jinja2\<close> and
  \<^verbatim>\<open>subprocess\<close>. Their data is modelled as far as the module reads it; their functions
  are the fields of a record that every function below takes as its first argument. The
  type \<open>'w\<close> is the state of the repository, which a subprocess may change.
\<close>

datatype vcs = Any | Git | Mercurial | Darcs | Subversion | Bazaar | Fossil | Pijul

datatype style = Pep440 | SemVer | Pvp

datatype concern = ShallowRepository | OtherConcern string

datatype pattern = PatternDefault | PatternCustom pyval

record version =
  v_base :: string
  v_stage :: "string option"
  v_revision :: "int option"
  v_distance :: int
  v_commit :: "string option"
  v_dirty :: bool
  v_branch :: "string option"
  v_timestamp :: "string option"
  v_tagged_metadata :: "string option"
  v_concerns :: "concern list"
  v_vcs :: vcs

text \<open>The seven arguments of \<^verbatim>\<open>Version.from_vcs\<close>.\<close>

record vcs_query =
  q_vcs :: vcs
  q_pattern :: pattern
  q_latest_tag :: pyval
  q_tag_dir :: pyval
  q_tag_branch :: pyval
  q_full_commit :: pyval
  q_strict :: pyval

record 'w dunamai =
  from_vcs :: "'w \<Rightarrow> vcs_query \<Rightarrow> error + version"
  subprocess_run :: "'w \<Rightarrow> string \<Rightarrow> (int \<times> string) \<times> 'w"
  serialize :: "version \<Rightarrow> pyval \<Rightarrow> pyval \<Rightarrow> pyval \<Rightarrow> style option \<Rightarrow> pyval \<Rightarrow> pyval
                  \<Rightarrow> error + string"
  bump :: "version \<Rightarrow> version"
  render :: "pyval \<Rightarrow> version \<Rightarrow> pyval \<Rightarrow> (string \<rightharpoonup> string) \<Rightarrow> error + string"
  check_version :: "string \<Rightarrow> style \<Rightarrow> error + unit"

text \<open>
  What the resolution does to the outside: a query of the VCS collaborator, a command run
  in a subprocess, a warning printed to the diagnostic stream.
\<close>

datatype event = Query vcs_query | Cmd string | Warn concern

text \<open>
  Effects are explicit: a computation takes the state (here the repository and the events
  so far) and returns its result or exception with the new state.
\<close>

type_synonym ('s, 'a) eff = "'s \<Rightarrow> (error + 'a) \<times> 's"

definition ret :: "'a \<Rightarrow> ('s, 'a) eff" where
  "ret x = (\<lambda>s. (Inr x, s))"

definition lift :: "error + 'a \<Rightarrow> ('s, 'a) eff" where
  "lift r = (\<lambda>s. (r, s))"

definition andthen :: "('s, 'a) eff \<Rightarrow> ('a \<Rightarrow> ('s, 'b) eff) \<Rightarrow> ('s, 'b) eff" where
  "andthen m f = (\<lambda>s. case m s of (Inl e, s') \<Rightarrow> (Inl e, s') | (Inr a, s') \<Rightarrow> f a s')"

text \<open>\<^verbatim>\<open>Vcs(config["vcs"])\<close> and \<^verbatim>\<open>Style(config["style"])\<close>: enum lookup by value.\<close>

definition vcs_of :: "pyval \<Rightarrow> error + vcs" where
  "vcs_of v =
     (if v = PStr ''any'' then Inr Any else if v = PStr ''git'' then Inr Git
      else if v = PStr ''mercurial'' then Inr Mercurial else if v = PStr ''darcs'' then Inr Darcs
      else if v = PStr ''subversion'' then Inr Subversion else if v = PStr ''bazaar'' then Inr Bazaar
      else if v = PStr ''fossil'' then Inr Fossil else if v = PStr ''pijul'' then Inr Pijul
      else Inl (ValueError ''not a valid Vcs''))"

definition style_of :: "pyval \<Rightarrow> error + style" where
  "style_of v =
     (if v = PStr ''pep440'' then Inr Pep440 else if v = PStr ''semver'' then Inr SemVer
      else if v = PStr ''pvp'' then Inr Pvp else Inl (ValueError ''not a valid Style''))"

text \<open>
  \<^verbatim>\<open>_run_cmd(command, codes)\<close>: the subprocess runs, then a return code outside a
  non-empty \<open>codes\<close> raises.
\<close>

definition run_cmd :: "'w dunamai \<Rightarrow> string \<Rightarrow> int list \<Rightarrow> ('w \<times> event list, int \<times> string) eff" where
  "run_cmd d command codes = (\<lambda>(w, tr).
     (case subprocess_run d w command of
        ((returncode, out), w') \<Rightarrow>
          (if codes \<noteq> [] \<and> returncode \<notin> set codes
           then (Inl (RuntimeError (''The command '' @ command @ '' failed'')), (w', tr @ [Cmd command]))
           else (Inr (returncode, py_strip out), (w', tr @ [Cmd command])))))"

text \<open>
  \<^verbatim>\<open>_get_version_from_dunamai(vcs, pattern, config, strict=...)\<close>; \<open>strict = None\<close> is
  the default of the keyword argument.
\<close>

definition get_version_from_dunamai ::
  "'w dunamai \<Rightarrow> vcs \<Rightarrow> pattern \<Rightarrow> pyval \<Rightarrow> bool option \<Rightarrow> ('w \<times> event list, version) eff"
where
  "get_version_from_dunamai d vcs pattern config strict =
     andthen (lift (py_getitem config ''latest-tag'')) (\<lambda>latest_tag.
     andthen (lift (py_getitem config ''tag-dir'')) (\<lambda>tag_dir.
     andthen (lift (py_getitem config ''tag-branch'')) (\<lambda>tag_branch.
     andthen (lift (py_getitem config ''full-commit'')) (\<lambda>full_commit.
     andthen (case strict of
                None \<Rightarrow> lift (py_getitem config ''strict'')
              | Some b \<Rightarrow> ret (PBool b)) (\<lambda>strict_arg.
       (\<lambda>(w, tr).
          (from_vcs d w
             \<lparr>q_vcs = vcs, q_pattern = pattern, q_latest_tag = latest_tag, q_tag_dir = tag_dir,
              q_tag_branch = tag_branch, q_full_commit = full_commit, q_strict = strict_arg\<rparr>,
           (w, tr @ [Query
             \<lparr>q_vcs = vcs, q_pattern = pattern, q_latest_tag = latest_tag, q_tag_dir = tag_dir,
              q_tag_branch = tag_branch, q_full_commit = full_commit,
              q_strict = strict_arg\<rparr>]))))))))"

text \<open>The \<^verbatim>\<open>for concern in version.concerns: print(...)\<close> loop.\<close>

definition warn_concerns :: "concern list \<Rightarrow> ('w \<times> event list, unit) eff" where
  "warn_concerns cs = (\<lambda>(w, tr). (Inr (), (w, tr @ map Warn cs)))"

text \<open>
  The body of \<^verbatim>\<open>_get_version\<close> after the override check, in three parts.
  \<open>fetch_version\<close> is the \<^verbatim>\<open>if config["fix-shallow-repository"]: ... else: ...\<close>
  statement that binds \<^verbatim>\<open>version\<close>.
\<close>

definition fetch_version ::
  "'w dunamai \<Rightarrow> vcs \<Rightarrow> pattern \<Rightarrow> pyval \<Rightarrow> ('w \<times> event list, version) eff"
where
  "fetch_version d vcs pattern config =
     andthen (lift (py_getitem config ''fix-shallow-repository'')) (\<lambda>fix.
       if py_truthy fix then
         andthen (get_version_from_dunamai d vcs pattern config (Some False)) (\<lambda>version.
         andthen (lift (py_getitem config ''strict'')) (\<lambda>retry0.
         andthen
           (if ShallowRepository \<in> set (v_concerns version) \<and> v_vcs version = Git
            then andthen (run_cmd d ''git fetch --unshallow'' [0]) (\<lambda>r. ret (PBool True))
            else ret retry0) (\<lambda>retry.
         if py_truthy retry then get_version_from_dunamai d vcs pattern config None
         else ret version)))
       else get_version_from_dunamai d vcs pattern config None)"

text \<open>
  \<open>serialize_version\<close> is the \<^verbatim>\<open>if config["format-jinja"]: ... else: ...\<close> statement
  that binds \<^verbatim>\<open>serialized\<close>. It changes nothing outside. The Jinja branch hands the
  template, the version, the configured imports and the environment to the rendering
  collaborator, which builds the context.
\<close>

definition bnd :: "error + 'a \<Rightarrow> ('a \<Rightarrow> error + 'b) \<Rightarrow> error + 'b" where
  "bnd r f = (case r of Inl e \<Rightarrow> Inl e | Inr a \<Rightarrow> f a)"

definition serialize_version ::
  "'w dunamai \<Rightarrow> (string \<rightharpoonup> string) \<Rightarrow> pyval \<Rightarrow> style option \<Rightarrow> version \<Rightarrow> error + string"
where
  "serialize_version d env config style version =
     bnd (py_getitem config ''format-jinja'') (\<lambda>format_jinja.
     if py_truthy format_jinja then
       bnd (py_getitem config ''bump'') (\<lambda>bump_flag.
       bnd (Inr (if py_truthy bump_flag \<and> v_distance version > 0 then bump d version
                 else version)) (\<lambda>version.
       bnd (py_getitem config ''format-jinja-imports'') (\<lambda>imports.
       bnd (render d format_jinja version imports env) (\<lambda>serialized.
       bnd (case style of
              None \<Rightarrow> Inr ()
            | Some st \<Rightarrow> check_version d serialized st) (\<lambda>u.
       Inr serialized)))))
     else
       bnd (py_getitem config ''metadata'') (\<lambda>metadata.
       bnd (py_getitem config ''dirty'') (\<lambda>dirty.
       bnd (py_getitem config ''format'') (\<lambda>fmt.
       bnd (py_getitem config ''bump'') (\<lambda>bump_flag.
       bnd (py_getitem config ''tagged-metadata'') (\<lambda>tagged.
       serialize d version metadata dirty fmt style bump_flag tagged))))))"

definition resolve_version ::
  "'w dunamai \<Rightarrow> (string \<rightharpoonup> string) \<Rightarrow> pyval \<Rightarrow> ('w \<times> event list, string) eff"
where
  "resolve_version d env config =
     andthen (lift (py_getitem config ''vcs'')) (\<lambda>vcs_raw.
     andthen (lift (vcs_of vcs_raw)) (\<lambda>vcs.
     andthen (lift (py_getitem config ''style'')) (\<lambda>style_raw.
     andthen (lift (if style_raw \<noteq> PNone then map_sum id Some (style_of style_raw)
                    else Inr None)) (\<lambda>style.
     andthen (lift (py_getitem config ''pattern'')) (\<lambda>pattern_raw.
     andthen (ret (if pattern_raw \<noteq> PNone then PatternCustom pattern_raw
                   else PatternDefault)) (\<lambda>pattern.
     andthen (fetch_version d vcs pattern config) (\<lambda>version.
     andthen (warn_concerns (v_concerns version)) (\<lambda>u.
     lift (serialize_version d env config style version)))))))))"

text \<open>\<^verbatim>\<open>_get_version(config, name)\<close>, reading the overrides from the environment \<open>env\<close>.\<close>

definition get_version ::
  "'w dunamai \<Rightarrow> (string \<rightharpoonup> string) \<Rightarrow> pyval \<Rightarrow> string option \<Rightarrow> ('w \<times> event list, string) eff"
where
  "get_version d env config name =
     (case get_override_version name env of
        Some override \<Rightarrow> ret override
      | None \<Rightarrow> resolve_version d env config)"

text \<open>
  A collaborator for the examples. The repository state is whether the clone is shallow;
  every query finds version 1.2.3 under Git and reports the shallow-repository concern on a
  shallow clone; every command succeeds and leaves a complete clone; serialisation gives
  the base version.
\<close>

definition example_dunamai :: "bool dunamai" where
  "example_dunamai =
     \<lparr>from_vcs = (\<lambda>shallow q. Inr
        \<lparr>v_base = ''1.2.3'', v_stage = None, v_revision = None, v_distance = 0,
         v_commit = None, v_dirty = False, v_branch = None, v_timestamp = None,
         v_tagged_metadata = None,
         v_concerns = (if shallow then [ShallowRepository] else []), v_vcs = Git\<rparr>),
      subprocess_run = (\<lambda>shallow command. ((0, []), False)),
      serialize = (\<lambda>v metadata dirty fmt style bump_flag tagged. Inr (v_base v)),
      bump = (\<lambda>v. v),
      render = (\<lambda>template v imports env. Inr (v_base v)),
      check_version = (\<lambda>serialized style. Inr ())\<rparr>"

definition example_config :: pyval where
  "example_config = PDict
     [(''enable'', PBool True), (''vcs'', PStr ''any''), (''dirty'', PBool False),
      (''pattern'', PNone), (''latest-tag'', PBool False), (''style'', PNone),
      (''metadata'', PNone), (''format'', PNone), (''format-jinja'', PNone),
      (''format-jinja-imports'', PList []), (''bump'', PBool False),
      (''tagged-metadata'', PBool False), (''full-commit'', PBool False),
      (''tag-branch'', PNone), (''tag-dir'', PStr ''tags''), (''strict'', PBool False),
      (''fix-shallow-repository'', PBool True)]"

section \<open>Substitution of the version in text\<close>

text \<open>
  The \<^verbatim>\<open>elif pattern.mode == "tuple":\<close> branch of \<^verbatim>\<open>_substitute_version_in_text\<close>,
  which computes \<^verbatim>\<open>insert\<close> from \<^verbatim>\<open>version\<close>. \<open>tuple_part\<close> is the
  \<^verbatim>\<open>try: str(int(part)) except ValueError: '"{}"'.format(part)\<close> of its loop.
\<close>

definition tuple_part :: "string \<Rightarrow> string" where
  "tuple_part part = (case py_int part of Some i \<Rightarrow> py_str_int i | None \<Rightarrow> [dq] @ part @ [dq])"

definition tuple_insert :: "string \<Rightarrow> string" where
  "tuple_insert version =
     (let split = split_once (CHR ''+'') version;
          split = (case split of
                     [] \<Rightarrow> []
                   | first # rest \<Rightarrow> split_on (\<lambda>c. c = CHR ''-'' \<or> c = CHR ''.'') first @ rest);
          parts = map tuple_part (filter (\<lambda>part. part \<noteq> []) split);
          insert = py_join '', '' parts
      in if length parts = 1 then insert @ '','' else insert)"

text \<open>
  A \<^verbatim>\<open>for x in v\<close> loop over a configuration value: the elements of a list, the keys
  of a dict, the characters of a string.
\<close>

fun py_iter :: "pyval \<Rightarrow> error + pyval list" where
  "py_iter (PList xs) = Inr xs"
| "py_iter (PDict d) = Inr (map (\<lambda>kv. PStr (fst kv)) d)"
| "py_iter (PStr s) = Inr (map (\<lambda>c. PStr [c]) s)"
| "py_iter v = Inl (TypeError ''object is not iterable'')"

text \<open>A loop that builds a list and ends at the first exception.\<close>

fun map_err :: "('a \<Rightarrow> error + 'b) \<Rightarrow> 'a list \<Rightarrow> error + 'b list" where
  "map_err f [] = Inr []"
| "map_err f (x # xs) =
     (case f x of
        Inl e \<Rightarrow> Inl e
      | Inr y \<Rightarrow> (case map_err f xs of Inl e \<Rightarrow> Inl e | Inr ys \<Rightarrow> Inr (y # ys)))"

text \<open>The class \<^verbatim>\<open>_SubPattern\<close> and \<^verbatim>\<open>_SubPattern.from_config\<close>.\<close>

record sub_pattern =
  sp_value :: pyval
  sp_mode :: pyval

fun sub_pattern_of :: "pyval \<Rightarrow> error + sub_pattern" where
  "sub_pattern_of (PStr x) = Inr \<lparr>sp_value = PStr x, sp_mode = PStr ''str''\<rparr>"
| "sub_pattern_of x =
     bnd (py_getitem x ''value'') (\<lambda>v.
     bnd (py_get x ''mode'' (PStr ''str'')) (\<lambda>m.
     Inr \<lparr>sp_value = v, sp_mode = m\<rparr>))"

definition sub_patterns_from_config :: "pyval \<Rightarrow> error + sub_pattern list" where
  "sub_patterns_from_config config = bnd (py_iter config) (map_err sub_pattern_of)"

section \<open>Paths and files\<close>

text \<open>
  A path is the list of the components of an absolute \<^verbatim>\<open>pathlib.Path\<close>. The file system
  holds regular text files and directories, without links or permissions; the root
  directory is the empty path. Every file and every directory is meant to lie in a
  directory. A path with a \<open>..\<close> component is outside the model: every operation on it
  answers \<open>Unmodelled\<close>.
\<close>

type_synonym path = "string list"

record fsys =
  fs_files :: "(path \<times> string) list"
  fs_dirs :: "path list"

definition parent :: "path \<Rightarrow> path" where
  "parent p = butlast p"

definition is_dir :: "fsys \<Rightarrow> path \<Rightarrow> bool" where
  "is_dir fs p = (p = [] \<or> p \<in> set (fs_dirs fs))"

definition is_file :: "fsys \<Rightarrow> path \<Rightarrow> bool" where
  "is_file fs p = (\<not> is_dir fs p \<and> map_of (fs_files fs) p \<noteq> None)"

text \<open>
  The exception for a path that cannot be reached: \<^verbatim>\<open>NotADirectoryError\<close> when a regular
  file is in the way, \<^verbatim>\<open>FileNotFoundError\<close> otherwise.
\<close>

definition unreachable :: "fsys \<Rightarrow> path \<Rightarrow> error" where
  "unreachable fs p =
     (if list_ex (\<lambda>n. is_file fs (take n p)) [0 ..< length p]
      then OSError ''NotADirectoryError'' else OSError ''FileNotFoundError'')"

text \<open>\<^verbatim>\<open>p.exists()\<close>, \<^verbatim>\<open>p.mkdir()\<close>, \<^verbatim>\<open>p.read_text()\<close> and \<^verbatim>\<open>p.write_text(content)\<close>.\<close>

definition path_exists :: "fsys \<Rightarrow> path \<Rightarrow> error + bool" where
  "path_exists fs p =
     (if ''..'' \<in> set p then Inl (Unmodelled ''path with ..'')
      else Inr (is_dir fs p \<or> is_file fs p))"

definition mkdir :: "fsys \<Rightarrow> path \<Rightarrow> error + fsys" where
  "mkdir fs p =
     (if ''..'' \<in> set p then Inl (Unmodelled ''path with ..'')
      else if is_dir fs p \<or> is_file fs p then Inl (OSError ''FileExistsError'')
      else if \<not> is_dir fs (parent p) then Inl (unreachable fs p)
      else Inr (fs\<lparr>fs_dirs := fs_dirs fs @ [p]\<rparr>))"

definition read_text :: "fsys \<Rightarrow> path \<Rightarrow> error + string" where
  "read_text fs p =
     (if ''..'' \<in> set p then Inl (Unmodelled ''path with ..'')
      else if is_dir fs p then Inl (OSError ''IsADirectoryError'')
      else (case map_of (fs_files fs) p of
              Some content \<Rightarrow> Inr content
            | None \<Rightarrow> Inl (unreachable fs p)))"

definition write_text :: "fsys \<Rightarrow> path \<Rightarrow> string \<Rightarrow> error + fsys" where
  "write_text fs p content =
     (if ''..'' \<in> set p then Inl (Unmodelled ''path with ..'')
      else if is_dir fs p then Inl (OSError ''IsADirectoryError'')
      else if \<not> is_dir fs (parent p) then Inl (unreachable fs p)
      else Inr (fs\<lparr>fs_files := AList.update p content (fs_files fs)\<rparr>))"

text \<open>
  \<^verbatim>\<open>base.joinpath(name)\<close> and \<^verbatim>\<open>base / name\<close> for a string: empty and \<open>.\<close> components
  vanish, \<open>..\<close> stays, an absolute name replaces the base. A name that begins with
  exactly two slashes has a root of its own in \<^verbatim>\<open>pathlib\<close> and is outside the model.
\<close>

definition path_parts :: "string \<Rightarrow> string list" where
  "path_parts name = filter (\<lambda>c. c \<noteq> [] \<and> c \<noteq> ''.'') (split_on (\<lambda>c. c = CHR ''/'') name)"

definition joinpath :: "path \<Rightarrow> string \<Rightarrow> error + path" where
  "joinpath base name =
     (if starts_with name ''//'' \<and> \<not> starts_with name ''///''
        then Inl (Unmodelled ''name with two leading slashes'')
      else if starts_with name ''/'' then Inr (path_parts name)
      else Inr (base @ path_parts name))"

section \<open>Library collaborators\<close>

text \<open>
  What the module calls in \<^verbatim>\<open>re\<close>, \<^verbatim>\<open>pathlib\<close>, \<^verbatim>\<open>tomlkit\<close> and \<^verbatim>\<open>textwrap\<close>, as the
  fields of a record that the functions below take as their first argument:
  \<^item> \<open>re_sub pattern repl string\<close> is \<^verbatim>\<open>re.sub(pattern, repl, string, flags=re.MULTILINE)\<close>;
  \<^item> \<open>glob fs base g\<close> is the list \<^verbatim>\<open>base.glob(str(g))\<close> yields on the file system \<open>fs\<close>;
  \<^item> \<open>resolve fs p\<close> is \<^verbatim>\<open>p.resolve()\<close>;
  \<^item> \<open>toml_parse\<close> and \<open>toml_dumps\<close> are \<^verbatim>\<open>tomlkit.parse\<close> and \<^verbatim>\<open>tomlkit.dumps\<close>, a document
    being taken as its data;
  \<^item> \<open>dedent\<close> is \<^verbatim>\<open>textwrap.dedent\<close>.
\<close>

record pylib =
  re_sub :: "string \<Rightarrow> string \<Rightarrow> string \<Rightarrow> error + string"
  glob :: "fsys \<Rightarrow> path \<Rightarrow> pyval \<Rightarrow> error + path list"
  resolve :: "fsys \<Rightarrow> path \<Rightarrow> path"
  toml_parse :: "string \<Rightarrow> error + pyval"
  toml_dumps :: "pyval \<Rightarrow> string"
  dedent :: "string \<Rightarrow> string"

section \<open>The substitution engine\<close>

text \<open>
  \<^verbatim>\<open>_substitute_version_in_text(version, content, patterns)\<close>: the loop over the patterns,
  \<open>content\<close> being the \<^verbatim>\<open>new_content\<close> so far. The replacement handed to \<^verbatim>\<open>re.sub\<close> is
  \<^verbatim>\<open>r"\g<1>{}\g<2>".format(insert)\<close>, with \<open>ins\<close> for \<^verbatim>\<open>insert\<close>.
\<close>

definition replacement :: "string \<Rightarrow> string" where
  "replacement ins = [bsl] @ ''g<1>'' @ ins @ [bsl] @ ''g<2>''"

fun substitute_version_in_text :: "pylib \<Rightarrow> string \<Rightarrow> string \<Rightarrow> sub_pattern list \<Rightarrow> error + string"
where
  "substitute_version_in_text lib version content [] = Inr content"
| "substitute_version_in_text lib version content (pattern # patterns) =
     (case (if sp_mode pattern = PStr ''str'' then Inr version
            else if sp_mode pattern = PStr ''tuple'' then Inr (tuple_insert version)
            else Inl (InvalidSubstitutionMode (sp_mode pattern))) of
        Inl e \<Rightarrow> Inl e
      | Inr ins \<Rightarrow>
          (case (case sp_value pattern of
                   PStr p \<Rightarrow> re_sub lib p (replacement ins) content
                 | _ \<Rightarrow> Inl (TypeError ''first argument must be string or compiled pattern'')) of
             Inl e \<Rightarrow> Inl e
           | Inr new_content \<Rightarrow> substitute_version_in_text lib version new_content patterns))"

section \<open>Merging the configuration\<close>

text \<open>
  \<^verbatim>\<open>_deep_merge_dicts(base, addition)\<close>. \<open>merge_items\<close> is its loop over
  \<^verbatim>\<open>addition.items()\<close>, with the \<^verbatim>\<open>result\<close> so far; assigning to a key of a dict keeps the
  key's place or appends it, which is \<open>AList.update\<close>.
\<close>

fun merge_items ::
  "(string \<times> pyval) list \<Rightarrow> (string \<times> pyval) list \<Rightarrow> (string \<times> pyval) list
     \<Rightarrow> (string \<times> pyval) list"
where
  "merge_items base result [] = result"
| "merge_items base result ((key, value) # rest) =
     merge_items base
       (AList.update key
          (case value of
             PDict a \<Rightarrow>
               (case map_of base key of
                  Some (PDict b) \<Rightarrow> PDict (merge_items b b a)
                | _ \<Rightarrow> value)
           | _ \<Rightarrow> value)
          result)
       rest"

definition deep_merge_dicts ::
  "(string \<times> pyval) list \<Rightarrow> (string \<times> pyval) list \<Rightarrow> (string \<times> pyval) list"
where
  "deep_merge_dicts base addition = merge_items base base addition"

text \<open>
  \<^verbatim>\<open>_get_config(local)\<close>. \<open>initialize\<close> is its inner function; \<open>initialize_each v keys\<close> is
  a loop \<^verbatim>\<open>for x in v: initialize(x, key)\<close> for each of the keys, which changes the dicts
  among the elements of a list and nothing when \<open>v\<close> is a dict or a string.
\<close>

definition initialize :: "pyval \<Rightarrow> string \<Rightarrow> pyval" where
  "initialize data key =
     (case data of
        PDict d \<Rightarrow> if key \<notin> set (map fst d) then PDict (d @ [(key, PNone)]) else data
      | _ \<Rightarrow> data)"

fun initialize_each :: "pyval \<Rightarrow> string list \<Rightarrow> error + pyval" where
  "initialize_each (PList xs) keys = Inr (PList (map (\<lambda>x. foldl initialize x keys) xs))"
| "initialize_each (PDict d) keys = Inr (PDict d)"
| "initialize_each (PStr s) keys = Inr (PStr s)"
| "initialize_each v keys = Inl (TypeError ''object is not iterable'')"

text \<open>\<^verbatim>\<open>d[k1][k2]... = v\<close> and \<^verbatim>\<open>d[k1][k2]...\<close> on nested dicts.\<close>

fun set_path :: "pyval \<Rightarrow> string list \<Rightarrow> pyval \<Rightarrow> error + pyval" where
  "set_path d [] v = Inr v"
| "set_path d [k] v =
     (case d of
        PDict items \<Rightarrow> Inr (PDict (AList.update k v items))
      | _ \<Rightarrow> Inl (TypeError ''object does not support item assignment''))"
| "set_path d (k # k2 # ks) v =
     bnd (py_getitem d k) (\<lambda>sub.
     bnd (set_path sub (k2 # ks) v) (\<lambda>sub'.
       case d of
         PDict items \<Rightarrow> Inr (PDict (AList.update k sub' items))
       | _ \<Rightarrow> Inl (TypeError ''object does not support item assignment'')))"

fun get_path :: "pyval \<Rightarrow> string list \<Rightarrow> error + pyval" where
  "get_path d [] = Inr d"
| "get_path d (k # ks) = bnd (py_getitem d k) (\<lambda>sub. get_path sub ks)"

definition get_config :: "pyval \<Rightarrow> error + pyval" where
  "get_config local =
     (case local of
        PDict addition \<Rightarrow>
          (case default_config of
             PDict base \<Rightarrow>
               bnd (get_path (PDict (deep_merge_dicts base addition))
                      [''tool'', ''poetry-dynamic-versioning'']) (\<lambda>merged.
               bnd (py_getitem merged ''files'') (\<lambda>files.
               bnd (case files of
                      PDict d \<Rightarrow>
                        Inr (PDict (map (\<lambda>kx. (fst kx,
                               initialize (initialize (snd kx) ''initial-content'')
                                 ''persistent-substitution'')) d))
                    | _ \<Rightarrow> Inl (AttributeError ''values'')) (\<lambda>files'.
               bnd (set_path merged [''files''] files') (\<lambda>merged.
               bnd (py_getitem merged ''format-jinja-imports'') (\<lambda>imports.
               bnd (initialize_each imports [''item'']) (\<lambda>imports'.
               bnd (set_path merged [''format-jinja-imports''] imports') (\<lambda>merged.
               bnd (get_path merged [''substitution'', ''folders'']) (\<lambda>folders.
               bnd (initialize_each folders [''files'', ''patterns'']) (\<lambda>folders'.
               bnd (set_path merged [''substitution'', ''folders''] folders') (\<lambda>merged.
               bnd (get_path merged [''substitution'', ''patterns'']) (\<lambda>patterns.
               bnd (initialize_each patterns [''mode'']) (\<lambda>patterns'.
               set_path merged [''substitution'', ''patterns''] patterns'))))))))))))
           | _ \<Rightarrow> Inl (AttributeError ''items''))
      | _ \<Rightarrow> Inl (AttributeError ''items''))"

section \<open>Folders\<close>

text \<open>The class \<^verbatim>\<open>_FolderConfig\<close> and \<^verbatim>\<open>_FolderConfig.from_config(config, root)\<close>.\<close>

record folder_config =
  fc_path :: path
  fc_files :: pyval
  fc_patterns :: "sub_pattern list"

definition extra_folder ::
  "path \<Rightarrow> pyval \<Rightarrow> sub_pattern list \<Rightarrow> pyval \<Rightarrow> error + folder_config"
where
  "extra_folder root files patterns x =
     bnd (py_getitem x ''path'') (\<lambda>p.
     bnd (case p of
            PStr name \<Rightarrow> joinpath root name
          | _ \<Rightarrow> Inl (TypeError ''unsupported operand type(s) for /'')) (\<lambda>folder_path.
     bnd (py_getitem x ''files'') (\<lambda>xfiles.
     bnd (py_getitem x ''patterns'') (\<lambda>xpatterns.
     bnd (if xpatterns \<noteq> PNone then sub_patterns_from_config xpatterns
          else Inr patterns) (\<lambda>folder_patterns.
     Inr \<lparr>fc_path = folder_path,
          fc_files = (if xfiles \<noteq> PNone then xfiles else files),
          fc_patterns = folder_patterns\<rparr>)))))"

definition folder_configs_from_config :: "pyval \<Rightarrow> path \<Rightarrow> error + folder_config list" where
  "folder_configs_from_config config root =
     bnd (get_path config [''substitution'', ''files'']) (\<lambda>files.
     bnd (get_path config [''substitution'', ''patterns'']) (\<lambda>patterns_raw.
     bnd (sub_patterns_from_config patterns_raw) (\<lambda>patterns.
     bnd (get_path config [''substitution'', ''folders'']) (\<lambda>folders.
     bnd (py_iter folders) (\<lambda>xs.
     bnd (map_err (extra_folder root files patterns) xs) (\<lambda>extra.
     Inr (\<lparr>fc_path = root, fc_files = files, fc_patterns = patterns\<rparr> # extra)))))))"

section \<open>The registry of projects\<close>

text \<open>The classes \<^verbatim>\<open>_ProjectState\<close> and \<^verbatim>\<open>_State\<close>; the dicts keep their insertion order.\<close>

record project_state =
  ps_path :: path
  ps_original_version :: string
  ps_version :: string
  ps_substitutions :: "(path \<times> string) list"

record pdv_state =
  patched_core_poetry_create :: bool
  cli_mode :: bool
  projects :: "(string \<times> project_state) list"

text \<open>
  The functions that write take the registry and the file system and return them changed,
  also when they raise: what was written before the exception stays written.
\<close>

definition with_fs :: "(fsys \<Rightarrow> error + 'a) \<Rightarrow> (pdv_state \<times> fsys, 'a) eff" where
  "with_fs f = (\<lambda>(st, fs). (f fs, (st, fs)))"

definition update_fs :: "(fsys \<Rightarrow> error + fsys) \<Rightarrow> (pdv_state \<times> fsys, unit) eff" where
  "update_fs f = (\<lambda>(st, fs). case f fs of Inl e \<Rightarrow> (Inl e, (st, fs)) | Inr fs' \<Rightarrow> (Inr (), (st, fs')))"

definition get_registry :: "(pdv_state \<times> fsys, pdv_state) eff" where
  "get_registry = (\<lambda>(st, fs). (Inr st, (st, fs)))"

section \<open>Substitution in files\<close>

text \<open>
  \<^verbatim>\<open>_substitute_version(name, version, folders)\<close>. The three nested loops that fill the
  dict \<^verbatim>\<open>files\<close> are \<open>add_matches\<close>, \<open>add_globs\<close> and \<open>add_folders\<close>, from the inside out;
  \<open>substitute_files\<close> is the loop over \<^verbatim>\<open>files.items()\<close>.
\<close>

fun add_matches ::
  "pylib \<Rightarrow> fsys \<Rightarrow> folder_config \<Rightarrow> (path \<times> folder_config) list \<Rightarrow> path list
     \<Rightarrow> (path \<times> folder_config) list"
where
  "add_matches lib fs folder files [] = files"
| "add_matches lib fs folder files (m # ms) =
     add_matches lib fs folder
       (if resolve lib fs m \<in> set (map fst files) then files
        else files @ [(resolve lib fs m, folder)])
       ms"

fun add_globs ::
  "pylib \<Rightarrow> fsys \<Rightarrow> folder_config \<Rightarrow> (path \<times> folder_config) list \<Rightarrow> pyval list
     \<Rightarrow> error + (path \<times> folder_config) list"
where
  "add_globs lib fs folder files [] = Inr files"
| "add_globs lib fs folder files (file_glob # rest) =
     (case glob lib fs (fc_path folder) file_glob of
        Inl e \<Rightarrow> Inl e
      | Inr ms \<Rightarrow> add_globs lib fs folder (add_matches lib fs folder files ms) rest)"

fun add_folders ::
  "pylib \<Rightarrow> fsys \<Rightarrow> (path \<times> folder_config) list \<Rightarrow> folder_config list
     \<Rightarrow> error + (path \<times> folder_config) list"
where
  "add_folders lib fs files [] = Inr files"
| "add_folders lib fs files (folder # rest) =
     (case py_iter (fc_files folder) of
        Inl e \<Rightarrow> Inl e
      | Inr globs \<Rightarrow>
          (case add_globs lib fs folder files globs of
             Inl e \<Rightarrow> Inl e
           | Inr files' \<Rightarrow> add_folders lib fs files' rest))"

text \<open>\<^verbatim>\<open>_state.projects[name].substitutions[file] = original_content\<close>.\<close>

definition record_substitution :: "string \<Rightarrow> path \<Rightarrow> string \<Rightarrow> pdv_state \<Rightarrow> pdv_state" where
  "record_substitution name file original_content st =
     st\<lparr>projects :=
          AList.map_entry name
            (\<lambda>ps. ps\<lparr>ps_substitutions :=
                       AList.update file original_content (ps_substitutions ps)\<rparr>)
            (projects st)\<rparr>"

fun substitute_files ::
  "pylib \<Rightarrow> string \<Rightarrow> string \<Rightarrow> (path \<times> folder_config) list \<Rightarrow> (pdv_state \<times> fsys, unit) eff"
where
  "substitute_files lib name version [] = ret ()"
| "substitute_files lib name version ((file, config) # rest) =
     andthen (with_fs (\<lambda>fs. read_text fs file)) (\<lambda>original_content.
     andthen (lift (substitute_version_in_text lib version original_content
                      (fc_patterns config))) (\<lambda>new_content.
     andthen
       (if original_content \<noteq> new_content then
          (\<lambda>(st, fs).
             update_fs (\<lambda>fs. write_text fs file new_content)
               (record_substitution name file original_content st, fs))
        else ret ()) (\<lambda>u.
     substitute_files lib name version rest)))"

definition substitute_version ::
  "pylib \<Rightarrow> string \<Rightarrow> string \<Rightarrow> folder_config list \<Rightarrow> (pdv_state \<times> fsys, unit) eff"
where
  "substitute_version lib name version folders =
     andthen get_registry (\<lambda>st.
       case map_of (projects st) name of
         None \<Rightarrow> lift (Inl (KeyError name))
       | Some ps \<Rightarrow>
           if ps_substitutions ps \<noteq> [] then ret ()
           else
             andthen (with_fs (\<lambda>fs. add_folders lib fs [] folders)) (\<lambda>files.
             substitute_files lib name version files))"

section \<open>Apply and revert\<close>

text \<open>
  The loop over \<^verbatim>\<open>config["files"].items()\<close> of \<^verbatim>\<open>_apply_version\<close>, on the file system:
  \<open>write_initial\<close> is its body.
\<close>

definition write_initial ::
  "pylib \<Rightarrow> path \<Rightarrow> string \<Rightarrow> pyval \<Rightarrow> fsys \<Rightarrow> (error + unit) \<times> fsys"
where
  "write_initial lib root file_name file_info fs =
     (case joinpath root file_name of
        Inl e \<Rightarrow> (Inl e, fs)
      | Inr full_file \<Rightarrow>
          (case py_getitem file_info ''initial-content'' of
             Inl e \<Rightarrow> (Inl e, fs)
           | Inr initial_content \<Rightarrow>
               if initial_content \<noteq> PNone then
                 (case path_exists fs (parent full_file) of
                    Inl e \<Rightarrow> (Inl e, fs)
                  | Inr there \<Rightarrow>
                      (case (if \<not> there then mkdir fs (parent full_file) else Inr fs) of
                         Inl e \<Rightarrow> (Inl e, fs)
                       | Inr fs1 \<Rightarrow>
                           (case initial_content of
                              PStr text \<Rightarrow>
                                (case write_text fs1 full_file (dedent lib text) of
                                   Inl e \<Rightarrow> (Inl e, fs1)
                                 | Inr fs2 \<Rightarrow> (Inr (), fs2))
                            | _ \<Rightarrow> (Inl (TypeError ''expected string or bytes-like object''),
                                    fs1))))
               else (Inr (), fs)))"

definition on_fs :: "(fsys \<Rightarrow> (error + 'a) \<times> fsys) \<Rightarrow> (pdv_state \<times> fsys, 'a) eff" where
  "on_fs f = (\<lambda>(st, fs). case f fs of (r, fs') \<Rightarrow> (r, (st, fs')))"

fun write_initial_files ::
  "pylib \<Rightarrow> path \<Rightarrow> (string \<times> pyval) list \<Rightarrow> (pdv_state \<times> fsys, unit) eff"
where
  "write_initial_files lib root [] = ret ()"
| "write_initial_files lib root ((file_name, file_info) # rest) =
     andthen (on_fs (write_initial lib root file_name file_info)) (\<lambda>u.
     write_initial_files lib root rest)"

text \<open>
  \<^verbatim>\<open>_apply_version(version, config, pyproject_path, retain)\<close>, in two parts.
  \<open>apply_manifest_and_files\<close> is the function up to the end of the loop over
  \<^verbatim>\<open>config["files"]\<close>: the manifest is read, gets the version (and, unless retained or in
  CLI mode, the enable toggle switched off) and is written; the project name is read; the
  files with initial content are written. It returns the name. \<open>apply_version\<close> then
  calls \<^verbatim>\<open>_substitute_version\<close>, whose third argument is evaluated first.
\<close>

definition apply_manifest_and_files ::
  "pylib \<Rightarrow> string \<Rightarrow> pyval \<Rightarrow> path \<Rightarrow> bool \<Rightarrow> (pdv_state \<times> fsys, pyval) eff"
where
  "apply_manifest_and_files lib version config pyproject_path retain =
     andthen (with_fs (\<lambda>fs. read_text fs pyproject_path)) (\<lambda>text.
     andthen (lift (toml_parse lib text)) (\<lambda>pyproject.
     andthen (lift (set_path pyproject [''tool'', ''poetry'', ''version''] (PStr version)))
       (\<lambda>pyproject.
     andthen get_registry (\<lambda>st.
     andthen (lift (if \<not> retain \<and> \<not> cli_mode st
                    then set_path pyproject
                           [''tool'', ''poetry-dynamic-versioning'', ''enable''] (PBool False)
                    else Inr pyproject)) (\<lambda>pyproject.
     andthen (update_fs (\<lambda>fs. write_text fs pyproject_path (toml_dumps lib pyproject))) (\<lambda>u.
     andthen (lift (get_path pyproject [''tool'', ''poetry'', ''name''])) (\<lambda>name.
     andthen (lift (py_getitem config ''files'')) (\<lambda>files.
     andthen (case files of
                PDict items \<Rightarrow> write_initial_files lib (parent pyproject_path) items
              | _ \<Rightarrow> lift (Inl (AttributeError ''items''))) (\<lambda>u.
     ret name)))))))))"

definition apply_version ::
  "pylib \<Rightarrow> string \<Rightarrow> pyval \<Rightarrow> path \<Rightarrow> bool \<Rightarrow> (pdv_state \<times> fsys, unit) eff"
where
  "apply_version lib version config pyproject_path retain =
     andthen (apply_manifest_and_files lib version config pyproject_path retain) (\<lambda>name.
     andthen (lift (folder_configs_from_config config (parent pyproject_path))) (\<lambda>folders.
       case name of
         PStr n \<Rightarrow> substitute_version lib n version folders
       | PList xs \<Rightarrow> lift (Inl (TypeError ''unhashable type''))
       | PDict d \<Rightarrow> lift (Inl (TypeError ''unhashable type''))
       | _ \<Rightarrow> lift (Inl (KeyError ''name''))))"

text \<open>
  \<^verbatim>\<open>_revert_version(retain)\<close>. \<open>persistent_paths\<close> is the loop that fills \<^verbatim>\<open>persistent\<close>
  and \<open>persistent_files\<close> that list, from \<^verbatim>\<open>config = _get_config(pyproject)\<close> on;
  \<open>restore_files\<close> is the loop over \<^verbatim>\<open>state.substitutions.items()\<close>, \<open>revert_project\<close> the
  body of the loop over the projects and \<open>revert_projects\<close> that loop.
\<close>

fun persistent_paths :: "path \<Rightarrow> (string \<times> pyval) list \<Rightarrow> error + path list" where
  "persistent_paths root [] = Inr []"
| "persistent_paths root ((file, file_info) # rest) =
     bnd (py_getitem file_info ''persistent-substitution'') (\<lambda>flag.
     bnd (if py_truthy flag then bnd (joinpath root file) (\<lambda>p. Inr [p]) else Inr []) (\<lambda>here.
     bnd (persistent_paths root rest) (\<lambda>more. Inr (here @ more))))"

fun restore_files :: "path list \<Rightarrow> (path \<times> string) list \<Rightarrow> fsys \<Rightarrow> (error + unit) \<times> fsys" where
  "restore_files persistent [] fs = (Inr (), fs)"
| "restore_files persistent ((file, content) # rest) fs =
     (if file \<in> set persistent then restore_files persistent rest fs
      else (case write_text fs file content of
              Inl e \<Rightarrow> (Inl e, fs)
            | Inr fs' \<Rightarrow> restore_files persistent rest fs'))"

definition read_pyproject :: "pylib \<Rightarrow> path \<Rightarrow> fsys \<Rightarrow> error + pyval" where
  "read_pyproject lib p fs = bnd (read_text fs p) (toml_parse lib)"

definition persistent_files :: "pyval \<Rightarrow> path \<Rightarrow> error + path list" where
  "persistent_files pyproject root =
     bnd (get_config pyproject) (\<lambda>config.
     bnd (py_getitem config ''files'') (\<lambda>files.
       case files of
         PDict items \<Rightarrow> persistent_paths root items
       | _ \<Rightarrow> Inl (AttributeError ''items'')))"

definition revert_project ::
  "pylib \<Rightarrow> bool \<Rightarrow> bool \<Rightarrow> project_state \<Rightarrow> fsys \<Rightarrow> (error + unit) \<times> fsys"
where
  "revert_project lib retain cli state fs =
     (case read_pyproject lib (ps_path state) fs of
        Inl e \<Rightarrow> (Inl e, fs)
      | Inr pyproject \<Rightarrow>
          (case (if ps_substitutions state \<noteq> [] then
                   (case persistent_files pyproject (parent (ps_path state)) of
                      Inl e \<Rightarrow> (Inl e, fs)
                    | Inr persistent \<Rightarrow>
                        (case restore_files persistent (ps_substitutions state) fs of
                           (Inl e, fs1) \<Rightarrow> (Inl e, fs1)
                         | (Inr u, fs1) \<Rightarrow> (read_pyproject lib (ps_path state) fs1, fs1)))
                 else (Inr pyproject, fs)) of
             (Inl e, fs1) \<Rightarrow> (Inl e, fs1)
           | (Inr pyproject, fs1) \<Rightarrow>
               (case bnd (set_path pyproject [''tool'', ''poetry'', ''version'']
                            (PStr (ps_original_version state))) (\<lambda>pyproject.
                     bnd (if \<not> retain \<and> \<not> cli
                          then set_path pyproject
                                 [''tool'', ''poetry-dynamic-versioning'', ''enable'']
                                 (PBool True)
                          else Inr pyproject) (\<lambda>pyproject.
                     write_text fs1 (ps_path state) (toml_dumps lib pyproject))) of
                  Inl e \<Rightarrow> (Inl e, fs1)
                | Inr fs2 \<Rightarrow> (Inr (), fs2))))"

fun revert_projects ::
  "pylib \<Rightarrow> bool \<Rightarrow> bool \<Rightarrow> (string \<times> project_state) list \<Rightarrow> fsys \<Rightarrow> (error + unit) \<times> fsys"
where
  "revert_projects lib retain cli [] fs = (Inr (), fs)"
| "revert_projects lib retain cli ((project, state) # rest) fs =
     (case revert_project lib retain cli state fs of
        (Inl e, fs') \<Rightarrow> (Inl e, fs')
      | (Inr u, fs') \<Rightarrow> revert_projects lib retain cli rest fs')"

definition revert_version :: "pylib \<Rightarrow> bool \<Rightarrow> (pdv_state \<times> fsys, unit) eff" where
  "revert_version lib retain = (\<lambda>(st, fs).
     case revert_projects lib retain (cli_mode st) (projects st) fs of
       (Inl e, fs') \<Rightarrow> (Inl e, (st, fs'))
     | (Inr u, fs') \<Rightarrow> (Inr (), (st\<lparr>projects := []\<rparr>, fs')))"

section \<open>A library for the examples\<close>

text \<open>
  The closed examples below need collaborators that compute. This section gives one of
  each, for the inputs the examples use and no others: whatever lies outside answers
  \<open>Unmodelled\<close>.

  First a backtracking matcher for a fragment of the \<^verbatim>\<open>re\<close> syntax: literal characters,
  \<open>.\<close>, \<open>^\<close> and \<open>$\<close> in multi-line mode, character sets with ranges and \<open>\s \d \w\<close>,
  groups \<open>(...)\<close> and \<open>(?:...)\<close>, alternation, and the quantifiers \<open>* + ?\<close>, greedy or
  lazy. A state of the matcher is the text consumed so far (reversed), the text left, and
  the groups captured. \<open>rx_match\<close> lists the states after a match in the order in which
  backtracking tries them.
\<close>

datatype rx =
    RChar char
  | RAny
  | RSet bool "(char \<times> char) list"
  | RBol
  | REol
  | REps
  | RSeq rx rx
  | RAlt rx rx
  | RStar bool rx
  | RGroup nat rx

type_synonym mstate = "string \<times> string \<times> (nat \<times> string) list"

definition in_ranges :: "char \<Rightarrow> (char \<times> char) list \<Rightarrow> bool" where
  "in_ranges c ranges =
     list_ex (\<lambda>r. (of_char (fst r) :: nat) \<le> of_char c \<and> (of_char c :: nat) \<le> of_char (snd r))
       ranges"

definition step_char :: "(char \<Rightarrow> bool) \<Rightarrow> mstate \<Rightarrow> mstate list" where
  "step_char ok = (\<lambda>(pre, s, g).
     case s of [] \<Rightarrow> [] | x # xs \<Rightarrow> if ok x then [(x # pre, xs, g)] else [])"

primrec star_iter :: "bool \<Rightarrow> (mstate \<Rightarrow> mstate list) \<Rightarrow> nat \<Rightarrow> mstate \<Rightarrow> mstate list" where
  "star_iter greedy f 0 st = [st]"
| "star_iter greedy f (Suc n) st =
     (let more = concat (map (star_iter greedy f n)
                   (filter (\<lambda>st'. length (fst (snd st')) < length (fst (snd st))) (f st)))
      in if greedy then more @ [st] else st # more)"

primrec rx_match :: "rx \<Rightarrow> mstate \<Rightarrow> mstate list" where
  "rx_match (RChar c) = step_char (\<lambda>x. x = c)"
| "rx_match RAny = step_char (\<lambda>x. x \<noteq> nl)"
| "rx_match (RSet negated ranges) = step_char (\<lambda>x. in_ranges x ranges \<noteq> negated)"
| "rx_match RBol = (\<lambda>(pre, s, g). case pre of [] \<Rightarrow> [(pre, s, g)]
                                     | p # ps \<Rightarrow> if p = nl then [(pre, s, g)] else [])"
| "rx_match REol = (\<lambda>(pre, s, g). case s of [] \<Rightarrow> [(pre, s, g)]
                                     | x # xs \<Rightarrow> if x = nl then [(pre, s, g)] else [])"
| "rx_match REps = (\<lambda>st. [st])"
| "rx_match (RSeq a b) = (\<lambda>st. concat (map (rx_match b) (rx_match a st)))"
| "rx_match (RAlt a b) = (\<lambda>st. rx_match a st @ rx_match b st)"
| "rx_match (RStar greedy r) = (\<lambda>st. star_iter greedy (rx_match r) (length (fst (snd st))) st)"
| "rx_match (RGroup n r) = (\<lambda>(pre, s, g).
     map (\<lambda>(pre', s', g'). (pre', s', (n, rev (take (length pre' - length pre) pre')) # g'))
       (rx_match r (pre, s, g)))"

text \<open>
  The leftmost match from a position on; \<open>must_advance\<close> refuses an empty match at the
  first position, as \<^verbatim>\<open>re.sub\<close> does right after an empty match.
\<close>

fun rx_search :: "rx \<Rightarrow> bool \<Rightarrow> string \<Rightarrow> string \<Rightarrow> (string \<times> mstate) option" where
  "rx_search r must_advance pre [] =
     (case filter (\<lambda>st. \<not> must_advance) (rx_match r (pre, [], [])) of
        [] \<Rightarrow> None
      | st # sts \<Rightarrow> Some (pre, st))"
| "rx_search r must_advance pre (c # cs) =
     (case filter (\<lambda>st. \<not> must_advance \<or> length (fst (snd st)) < Suc (length cs))
             (rx_match r (pre, c # cs, [])) of
        [] \<Rightarrow> rx_search r False (c # pre) cs
      | st # sts \<Rightarrow> Some (pre, st))"

record rmatch =
  m_start :: nat
  m_end :: nat
  m_groups :: "string option list"

fun rx_finditer :: "rx \<Rightarrow> nat \<Rightarrow> nat \<Rightarrow> bool \<Rightarrow> string \<Rightarrow> string \<Rightarrow> rmatch list" where
  "rx_finditer r groups 0 must_advance pre s = []"
| "rx_finditer r groups (Suc fuel) must_advance pre s =
     (case rx_search r must_advance pre s of
        None \<Rightarrow> []
      | Some (start, (pre', s', caps)) \<Rightarrow>
          \<lparr>m_start = length start, m_end = length pre',
           m_groups = map (map_of caps) [1 ..< Suc groups]\<rparr>
          # rx_finditer r groups fuel (length pre' = length start) pre' s')"

text \<open>The parser of the fragment. The first argument bounds the depth of the recursion.\<close>

definition ws_ranges :: "(char \<times> char) list" where
  "ws_ranges = [(CHR 0x09, CHR 0x0D), (CHR 0x1C, CHR 0x20)]"

definition digit_ranges :: "(char \<times> char) list" where
  "digit_ranges = [(CHR ''0'', CHR ''9'')]"

definition word_ranges :: "(char \<times> char) list" where
  "word_ranges =
     [(CHR ''a'', CHR ''z''), (CHR ''A'', CHR ''Z''), (CHR ''0'', CHR ''9''), (CHR ''_'', CHR ''_'')]"

definition unmodelled :: "error + 'a" where
  "unmodelled = Inl (Unmodelled ''outside the fragment of re'')"

fun p_class :: "string \<Rightarrow> error + ((char \<times> char) list \<times> string)" where
  "p_class [] = Inl (ReError ''unterminated character set'')"
| "p_class (c # cs) =
     (if c = CHR '']'' then Inr ([], cs)
      else if c = bsl then
        (case cs of
           [] \<Rightarrow> Inl (ReError ''bad escape (end of pattern)'')
         | e # rest \<Rightarrow>
             (if e = CHR ''s'' then bnd (p_class rest) (\<lambda>(rs, t). Inr (ws_ranges @ rs, t))
              else if e = CHR ''d'' then bnd (p_class rest) (\<lambda>(rs, t). Inr (digit_ranges @ rs, t))
              else if e = CHR ''w'' then bnd (p_class rest) (\<lambda>(rs, t). Inr (word_ranges @ rs, t))
              else if is_digit e
                      \<or> in_ranges e [(CHR ''a'', CHR ''z''), (CHR ''A'', CHR ''Z'')]
                then unmodelled
              else bnd (p_class rest) (\<lambda>(rs, t). Inr ((e, e) # rs, t))))
      else if c = CHR ''['' then unmodelled
      else
        (case cs of
           d # hi # rest \<Rightarrow>
             (if d = CHR ''-'' \<and> hi \<noteq> CHR '']'' then
                (if hi = bsl \<or> hi = CHR ''['' then unmodelled
                 else bnd (p_class rest) (\<lambda>(rs, t). Inr ((c, hi) # rs, t)))
              else bnd (p_class cs) (\<lambda>(rs, t). Inr ((c, c) # rs, t)))
         | _ \<Rightarrow> bnd (p_class cs) (\<lambda>(rs, t). Inr ((c, c) # rs, t))))"

definition quantified :: "char \<Rightarrow> bool \<Rightarrow> rx \<Rightarrow> rx" where
  "quantified q greedy a =
     (if q = CHR ''*'' then RStar greedy a
      else if q = CHR ''+'' then RSeq a (RStar greedy a)
      else if greedy then RAlt a REps else RAlt REps a)"

definition p_quant :: "rx \<Rightarrow> string \<Rightarrow> error + (rx \<times> string)" where
  "p_quant a s =
     (case s of
        [] \<Rightarrow> Inr (a, s)
      | q # t \<Rightarrow>
          (if q = CHR ''{'' then unmodelled
           else if q = CHR ''*'' \<or> q = CHR ''+'' \<or> q = CHR ''?'' then
             (case t of
                [] \<Rightarrow> Inr (quantified q True a, t)
              | l # u \<Rightarrow>
                  (if l = CHR ''?'' then
                     (case u of
                        [] \<Rightarrow> Inr (quantified q False a, u)
                      | m # v \<Rightarrow>
                          if m = CHR ''*'' \<or> m = CHR ''+'' \<or> m = CHR ''?'' \<or> m = CHR ''{''
                          then unmodelled
                          else Inr (quantified q False a, u))
                   else if l = CHR ''*'' \<or> l = CHR ''+'' \<or> l = CHR ''{'' then unmodelled
                   else Inr (quantified q True a, t)))
           else Inr (a, s)))"

fun p_alt :: "nat \<Rightarrow> nat \<Rightarrow> string \<Rightarrow> error + (rx \<times> nat \<times> string)"
  and p_seq :: "nat \<Rightarrow> nat \<Rightarrow> string \<Rightarrow> error + (rx \<times> nat \<times> string)"
  and p_atom :: "nat \<Rightarrow> nat \<Rightarrow> string \<Rightarrow> error + (rx \<times> nat \<times> string)"
where
  "p_alt 0 g s = unmodelled"
| "p_alt (Suc n) g s =
     bnd (p_seq n g s) (\<lambda>(r, g1, t).
       case t of
         [] \<Rightarrow> Inr (r, g1, t)
       | c # u \<Rightarrow> if c = CHR ''|''
                  then bnd (p_alt n g1 u) (\<lambda>(r2, g2, v). Inr (RAlt r r2, g2, v))
                  else Inr (r, g1, t))"
| "p_seq 0 g s = unmodelled"
| "p_seq (Suc n) g s =
     (case s of
        [] \<Rightarrow> Inr (REps, g, s)
      | c # u \<Rightarrow>
          if c = CHR ''|'' \<or> c = CHR '')'' then Inr (REps, g, s)
          else bnd (p_atom n g s) (\<lambda>(a, g1, t).
               bnd (p_quant a t) (\<lambda>(a', t').
               bnd (p_seq n g1 t') (\<lambda>(r, g2, v). Inr (RSeq a' r, g2, v)))))"
| "p_atom 0 g s = unmodelled"
| "p_atom (Suc n) g [] = unmodelled"
| "p_atom (Suc n) g (c # s) =
     (if c = CHR ''('' then
        (case s of
           [] \<Rightarrow> Inl (ReError ''missing ), unterminated subpattern'')
         | q # t \<Rightarrow>
             if q = CHR ''?'' then
               (case t of
                  [] \<Rightarrow> Inl (ReError ''unexpected end of pattern'')
                | k # u \<Rightarrow>
                    if k = CHR '':'' then
                      bnd (p_alt n g u) (\<lambda>(r, g1, v).
                        case v of
                          [] \<Rightarrow> Inl (ReError ''missing ), unterminated subpattern'')
                        | e # w \<Rightarrow> if e = CHR '')'' then Inr (r, g1, w)
                                   else Inl (ReError ''missing ), unterminated subpattern''))
                    else unmodelled)
             else
               bnd (p_alt n (Suc g) s) (\<lambda>(r, g1, v).
                 case v of
                   [] \<Rightarrow> Inl (ReError ''missing ), unterminated subpattern'')
                 | e # w \<Rightarrow> if e = CHR '')'' then Inr (RGroup (Suc g) r, g1, w)
                            else Inl (ReError ''missing ), unterminated subpattern'')))
      else if c = CHR ''['' then
        (case s of
           [] \<Rightarrow> Inl (ReError ''unterminated character set'')
         | q # t \<Rightarrow>
             if q = CHR ''^'' then
               (case t of
                  [] \<Rightarrow> Inl (ReError ''unterminated character set'')
                | k # u \<Rightarrow> if k = CHR '']'' then unmodelled
                           else bnd (p_class t) (\<lambda>(rs, v). Inr (RSet True rs, g, v)))
             else if q = CHR '']'' then unmodelled
             else bnd (p_class s) (\<lambda>(rs, v). Inr (RSet False rs, g, v)))
      else if c = CHR ''.'' then Inr (RAny, g, s)
      else if c = CHR ''^'' then Inr (RBol, g, s)
      else if c = CHR ''$'' then Inr (REol, g, s)
      else if c = bsl then
        (case s of
           [] \<Rightarrow> Inl (ReError ''bad escape (end of pattern)'')
         | e # t \<Rightarrow>
             if e = CHR ''s'' then Inr (RSet False ws_ranges, g, t)
             else if e = CHR ''S'' then Inr (RSet True ws_ranges, g, t)
             else if e = CHR ''d'' then Inr (RSet False digit_ranges, g, t)
             else if e = CHR ''D'' then Inr (RSet True digit_ranges, g, t)
             else if e = CHR ''w'' then Inr (RSet False word_ranges, g, t)
             else if e = CHR ''W'' then Inr (RSet True word_ranges, g, t)
             else if is_digit e \<or> in_ranges e [(CHR ''a'', CHR ''z''), (CHR ''A'', CHR ''Z'')]
               then unmodelled
             else Inr (RChar e, g, t))
      else if c = CHR ''*'' \<or> c = CHR ''+'' \<or> c = CHR ''?'' then Inl (ReError ''nothing to repeat'')
      else if c = CHR ''{'' \<or> c = CHR ''}'' then unmodelled
      else Inr (RChar c, g, s))"

text \<open>
  A replacement template of literal characters and numbered references \<open>\g<n>\<close>, and the
  replacement of the matches in the text. A group that took no part in the match gives the
  empty string.
\<close>

datatype titem = TLit string | TGroup nat

fun example_template :: "nat \<Rightarrow> string \<Rightarrow> error + titem list" where
  "example_template groups [] = Inr []"
| "example_template groups (c # cs) =
     (if c \<noteq> bsl then bnd (example_template groups cs) (\<lambda>items. Inr (TLit [c] # items))
      else
        (case cs of
           e # l # after \<Rightarrow>
             if e = CHR ''g'' \<and> l = CHR ''<'' \<and> CHR ''>'' \<in> set after
                \<and> takeWhile (\<lambda>x. x \<noteq> CHR ''>'') after \<noteq> []
                \<and> list_all is_digit (takeWhile (\<lambda>x. x \<noteq> CHR ''>'') after)
                \<and> length (takeWhile (\<lambda>x. x \<noteq> CHR ''>'') after) \<le> 2
             then
               (if decimal_value (takeWhile (\<lambda>x. x \<noteq> CHR ''>'') after) > groups
                then Inl (ReError ''invalid group reference'')
                else bnd (example_template groups
                            (drop (Suc (length (takeWhile (\<lambda>x. x \<noteq> CHR ''>'') after))) after))
                       (\<lambda>items.
                          Inr (TGroup (decimal_value (takeWhile (\<lambda>x. x \<noteq> CHR ''>'') after))
                               # items)))
             else Inl (Unmodelled ''template escape'')
         | _ \<Rightarrow> Inl (Unmodelled ''template escape'')))"

definition expand :: "titem list \<Rightarrow> string \<Rightarrow> rmatch \<Rightarrow> string" where
  "expand items content m =
     concat (map (\<lambda>item.
        case item of
          TLit s \<Rightarrow> s
        | TGroup i \<Rightarrow>
            if i = 0 then take (m_end m - m_start m) (drop (m_start m) content)
            else (case m_groups m ! (i - 1) of Some s \<Rightarrow> s | None \<Rightarrow> [])) items)"

fun splice :: "titem list \<Rightarrow> string \<Rightarrow> nat \<Rightarrow> rmatch list \<Rightarrow> string" where
  "splice items content pos [] = drop pos content"
| "splice items content pos (m # ms) =
     take (m_start m - pos) (drop pos content) @ expand items content m
       @ splice items content (m_end m) ms"

definition example_re_sub :: "string \<Rightarrow> string \<Rightarrow> string \<Rightarrow> error + string" where
  "example_re_sub pattern repl content =
     bnd (p_alt (3 * length pattern + 3) 0 pattern) (\<lambda>(r, groups, rest).
       if rest \<noteq> [] then Inl (ReError ''unbalanced parenthesis'')
       else bnd (example_template groups repl) (\<lambda>items.
              Inr (splice items content 0
                     (rx_finditer r groups (2 * length content + 2) False [] content))))"

text \<open>
  Globbing for a relative pattern whose components are made of literal characters and
  \<open>*\<close>: a component selects, in each directory reached so far, the entries (files and
  directories, hidden ones too) whose name matches, in the order of the file system.
\<close>

fun wild_match :: "string \<Rightarrow> string \<Rightarrow> bool" where
  "wild_match [] [] = True"
| "wild_match [] (c # cs) = False"
| "wild_match (p # ps) [] = (p = CHR ''*'' \<and> wild_match ps [])"
| "wild_match (p # ps) (c # cs) =
     (if p = CHR ''*'' then wild_match ps (c # cs) \<or> wild_match (p # ps) cs
      else p = c \<and> wild_match ps cs)"

definition entries :: "fsys \<Rightarrow> path list" where
  "entries fs = remdups (map fst (fs_files fs) @ fs_dirs fs)"

fun glob_walk :: "fsys \<Rightarrow> path list \<Rightarrow> string list \<Rightarrow> path list" where
  "glob_walk fs bases [] = bases"
| "glob_walk fs bases (pat # pats) =
     glob_walk fs
       (concat (map (\<lambda>b. if is_dir fs b
                          then filter (\<lambda>p. p \<noteq> [] \<and> butlast p = b \<and> wild_match pat (last p))
                                 (entries fs)
                          else []) bases))
       pats"

definition example_glob :: "fsys \<Rightarrow> path \<Rightarrow> pyval \<Rightarrow> error + path list" where
  "example_glob fs base g =
     (case g of
        PStr pat \<Rightarrow>
          if list_ex (\<lambda>c. c \<in> set ''?[]'') pat \<or> str_contains pat ''**''
             \<or> list_ex (\<lambda>c. c = [] \<or> c = ''.'' \<or> c = ''..'')
                  (split_on (\<lambda>c. c = CHR ''/'') pat)
             \<or> ''..'' \<in> set base
          then Inl (Unmodelled ''glob pattern'')
          else Inr (glob_walk fs [base] (split_on (\<lambda>c. c = CHR ''/'') pat))
      | _ \<Rightarrow> Inl (Unmodelled ''glob pattern''))"

text \<open>
  \<^verbatim>\<open>Path.resolve()\<close> where there are no links: the \<open>..\<close> components are cancelled.
\<close>

definition example_resolve :: "fsys \<Rightarrow> path \<Rightarrow> path" where
  "example_resolve fs p = foldl (\<lambda>acc c. if c = ''..'' then butlast acc else acc @ [c]) [] p"

text \<open>
  \<^verbatim>\<open>textwrap.dedent\<close>: the lines made of spaces and tabs only become empty, and the longest
  run of spaces and tabs with which all the other lines begin is removed from them.
\<close>

definition is_blank :: "char \<Rightarrow> bool" where
  "is_blank c = (c = CHR '' '' \<or> c = CHR 0x09)"

fun common_prefix :: "string \<Rightarrow> string \<Rightarrow> string" where
  "common_prefix (x # xs) (y # ys) = (if x = y then x # common_prefix xs ys else [])"
| "common_prefix xs ys = []"

definition example_dedent :: "string \<Rightarrow> string" where
  "example_dedent text =
     (let lines = map (\<lambda>l. if list_all is_blank l then [] else l)
                    (split_on (\<lambda>c. c = nl) text)
      in case map (takeWhile is_blank) (filter (\<lambda>l. l \<noteq> []) lines) of
           [] \<Rightarrow> py_join [nl] lines
         | i # indents \<Rightarrow>
             py_join [nl]
               (map (\<lambda>l. if l = [] then l
                          else drop (length (foldl common_prefix i indents)) l) lines))"

text \<open>
  The TOML codec of an example is the table of the texts and documents that occur in it.
\<close>

definition table_parse :: "(string \<times> pyval) list \<Rightarrow> string \<Rightarrow> error + pyval" where
  "table_parse table text =
     (case map_of table text of
        Some doc \<Rightarrow> Inr doc
      | None \<Rightarrow> Inl (Unmodelled ''text outside the table''))"

definition table_dumps :: "(string \<times> pyval) list \<Rightarrow> pyval \<Rightarrow> string" where
  "table_dumps table doc =
     (case filter (\<lambda>td. snd td = doc) table of
        td # tds \<Rightarrow> fst td
      | [] \<Rightarrow> ''document outside the table'')"

definition example_lib :: "(string \<times> pyval) list \<Rightarrow> pylib" where
  "example_lib table =
     \<lparr>re_sub = example_re_sub,
      glob = example_glob,
      resolve = example_resolve,
      toml_parse = table_parse table,
      toml_dumps = table_dumps table,
      dedent = example_dedent\<rparr>"

text \<open>
  A project for the examples: the manifest of the project \<open>demo\<close> with a given version,
  enable toggle and further entries in its \<^verbatim>\<open>tool.poetry-dynamic-versioning\<close> table; the
  TOML texts of its manifests; its directory \<open>/proj\<close> with the package \<open>pkg\<close>; and the
  registry after \<^verbatim>\<open>_get_and_apply_version\<close> has entered the project.
\<close>

definition example_manifest :: "string \<Rightarrow> bool \<Rightarrow> (string \<times> pyval) list \<Rightarrow> pyval" where
  "example_manifest v e extra = PDict
     [(''tool'', PDict
        [(''poetry'', PDict [(''name'', PStr ''demo''), (''version'', PStr v)]),
         (''poetry-dynamic-versioning'', PDict ((''enable'', PBool e) # extra))])]"

definition example_table :: "(string \<times> pyval) list \<Rightarrow> (string \<times> pyval) list" where
  "example_table extra =
     [(''0.0.0 enabled'', example_manifest ''0.0.0'' True extra),
      (''1.2.3 disabled'', example_manifest ''1.2.3'' False extra),
      (''1.2.4 disabled'', example_manifest ''1.2.4'' False extra)]"

definition example_tree :: "string \<Rightarrow> (path \<times> string) list \<Rightarrow> fsys" where
  "example_tree manifest files =
     \<lparr>fs_files = ([''proj'', ''pyproject.toml''], manifest) # files,
      fs_dirs = [[''proj''], [''proj'', ''pkg'']]\<rparr>"

definition example_registry :: "(path \<times> string) list \<Rightarrow> pdv_state" where
  "example_registry substitutions =
     \<lparr>patched_core_poetry_create = False, cli_mode = False,
      projects = [(''demo'',
        \<lparr>ps_path = [''proj'', ''pyproject.toml''], ps_original_version = ''0.0.0'',
         ps_version = ''1.2.3'', ps_substitutions = substitutions\<rparr>)]\<rparr>"

definition version_line :: "string \<Rightarrow> string" where
  "version_line v = ''__version__ = '' @ [dq] @ v @ [dq] @ [nl]"


section \<open>Properties of the validation\<close>

lemma member_map_of: "k \<in> fst ` set d \<longleftrightarrow> map_of d k \<noteq> None"
  by (simp add: map_of_eq_None_iff)

lemma validate_items_regular:
  "regular items schema \<Longrightarrow> schema \<noteq> [] \<Longrightarrow>
   validate_items items (PDict schema) path = Inr (reported_keys items schema path)"
proof (induction items schema path rule: reported_keys.induct)
  case (1 schema path)
  then show ?case by simp
next
  case (2 key "value" rest schema path)
  have ne: "schema \<noteq> []" by fact
  have rest: "validate_items rest (PDict schema) path = Inr (reported_keys rest schema path)"
    using "2.IH"(2) "2.prems" by simp
  show ?case
  proof (cases "map_of schema key")
    case None
    then show ?thesis using rest ne by (simp add: member_map_of)
  next
    case (Some sub)
    show ?thesis
    proof (cases "value")
      case (PDict items)
      show ?thesis
      proof (cases sub)
        case (PDict subschema)
        have reg: "regular items subschema"
          using "2.prems" Some \<open>value = PDict items\<close> PDict by simp
        show ?thesis
        proof (cases "subschema = []")
          case True
          have "reported_keys items [] (path @ [key]) = []"
            by (cases items) auto
          then show ?thesis
            using rest ne Some \<open>value = PDict items\<close> PDict True
            by (simp add: member_map_of)
        next
          case False
          have "validate_items items (PDict subschema) (path @ [key])
                  = Inr (reported_keys items subschema (path @ [key]))"
            using "2.IH"(1)[OF ne Some \<open>value = PDict items\<close> PDict reg False] .
          then show ?thesis
            using rest ne False Some \<open>value = PDict items\<close> PDict by (simp add: member_map_of)
        qed
      qed (use "2.prems" Some PDict rest in \<open>simp_all add: member_map_of\<close>)
    qed (use Some rest ne in \<open>simp_all add: member_map_of\<close>)
  qed
qed

lemma reported_keys_empty: "reported_keys items [] path = []"
  by (cases items) auto

lemma reported_keys_flat:
  "schema \<noteq> [] \<Longrightarrow> list_all (\<lambda>kv. \<not> is_dict (snd kv)) items \<Longrightarrow>
   reported_keys items schema path =
     map (unknown_key_msg path) (filter (\<lambda>k. k \<notin> set (map fst schema)) (map fst items))"
proof (induction items)
  case Nil
  show ?case by simp
next
  case (Cons kv items)
  obtain k v where kv: "kv = (k, v)" by (cases kv)
  have "\<not> is_dict v" using Cons.prems kv by simp
  then have leaf: "(case v of PDict its \<Rightarrow>
                      (case sub of PDict ss \<Rightarrow> reported_keys its ss (path @ [k]) | _ \<Rightarrow> [])
                    | _ \<Rightarrow> []) = []" for sub
    by (cases v) simp_all
  show ?case using Cons kv leaf
    by (auto simp: map_of_eq_None_iff split: option.splits dest: map_of_SomeD intro: rev_image_eqI)
qed

lemma validate_items_append:
  "validate_items (xs @ ys) d p =
     (case validate_items xs d p of
        Inl e \<Rightarrow> Inl e
      | Inr a \<Rightarrow> (case validate_items ys d p of Inl e \<Rightarrow> Inl e | Inr b \<Rightarrow> Inr (a @ b)))"
proof (induction xs)
  case Nil
  show ?case by (simp split: sum.splits)
next
  case (Cons kv xs)
  obtain k v where kv: "kv = (k, v)" by (cases kv)
  show ?case unfolding kv using Cons.IH
    by (simp split: sum.splits)
qed

lemma validate_files_item:
  "validate_items ((''files'', v) # ys) default_section path
     = validate_items ys default_section path"
  by (cases v) (simp_all add: default_section_def split: sum.splits)

text \<open>
  C8, as amended. Validation returns exactly the list of the contract as the code keeps
  it: one \<open>Unknown key: <dotted.path>\<close> string for each key the default lacks at that
  level, the result of the recursion for a key whose value is a mapping on both sides,
  nothing for a leaf under a known key, and nothing at all at a level whose default
  mapping is empty. On a section without nested mappings against a non-empty default that
  is one message per offending key, in the order of the keys.
\<close>

theorem unknown_key_detection:
  assumes "regular items schema"
  shows "validate_config_section (PDict items) (PDict schema) path
           = Inr (reported_keys items schema path)
       \<and> reported_keys items [] path = []
       \<and> (schema \<noteq> [] \<and> list_all (\<lambda>kv. \<not> is_dict (snd kv)) items \<longrightarrow>
            reported_keys items schema path =
              map (unknown_key_msg path)
                (filter (\<lambda>k. k \<notin> set (map fst schema)) (map fst items)))"
proof (cases "schema = []")
  case True
  then show ?thesis by (simp add: reported_keys_empty)
next
  case False
  then show ?thesis
    using validate_items_regular[OF assms False, of path] reported_keys_flat[of schema items path]
    by (simp add: reported_keys_empty)
qed

theorem unknown_key_detection_witness:
  "(case default_section of
      PDict schema \<Rightarrow>
        regular
          [(''enable'', PBool True), (''vsc'', PStr ''git''),
           (''files'', PDict [(''pkg/_version.py'', PDict [(''bogus'', PBool True)])]),
           (''substitution'', PDict [(''file'', PList []), (''folders'', PList [])])]
          schema
    | _ \<Rightarrow> False)
   \<and> validate_config_section
       (PDict [(''enable'', PBool True), (''vsc'', PStr ''git''),
               (''files'', PDict [(''pkg/_version.py'', PDict [(''bogus'', PBool True)])]),
               (''substitution'', PDict [(''file'', PList []), (''folders'', PList [])])])
       default_section
       [''tool'', ''poetry-dynamic-versioning'']
     = Inr [''Unknown key: tool.poetry-dynamic-versioning.vsc'',
            ''Unknown key: tool.poetry-dynamic-versioning.substitution.file'']"
proof -
  obtain schema where s: "default_section = PDict schema"
    by (simp add: default_section_def)
  have r: "regular
          [(''enable'', PBool True), (''vsc'', PStr ''git''),
           (''files'', PDict [(''pkg/_version.py'', PDict [(''bogus'', PBool True)])]),
           (''substitution'', PDict [(''file'', PList []), (''folders'', PList [])])]
          schema"
    using s by (auto simp: default_section_def)
  have k: "reported_keys
          [(''enable'', PBool True), (''vsc'', PStr ''git''),
           (''files'', PDict [(''pkg/_version.py'', PDict [(''bogus'', PBool True)])]),
           (''substitution'', PDict [(''file'', PList []), (''folders'', PList [])])]
          schema [''tool'', ''poetry-dynamic-versioning'']
     = [''Unknown key: tool.poetry-dynamic-versioning.vsc'',
            ''Unknown key: tool.poetry-dynamic-versioning.substitution.file'']"
    using s by (auto simp: default_section_def unknown_key_msg_def escaped_key_def)
  show ?thesis
    using r k unknown_key_detection[OF r, of "[''tool'', ''poetry-dynamic-versioning'']"]
    by (simp add: s)
qed

text \<open>
  C8 as stated fails where the default mapping is empty. The default schema has no key
  under \<open>files\<close>, so the key \<open>pkg/_version.py\<close> of the user's \<open>files\<close> table is absent
  from the schema at its nesting level; the contract reports it, the code reports nothing.
\<close>

theorem unknown_key_detection_counterexample:
  "validate_config_section
     (PDict [(''files'', PDict [(''pkg/_version.py'', PDict [(''bogus'', PBool True)])])])
     default_section [''tool'', ''poetry-dynamic-versioning'']
     = Inr []
   \<and> unknown_keys
       [(''files'', PDict [(''pkg/_version.py'', PDict [(''bogus'', PBool True)])])]
       [(''files'', PDict [])] [''tool'', ''poetry-dynamic-versioning'']
     = [''Unknown key: tool.poetry-dynamic-versioning.files.'' @ [dq] @ ''pkg/_version.py'' @ [dq]]"
  by (simp add: default_section_def unknown_key_msg_def escaped_key_def)

text \<open>
  C10. Against an empty default mapping validation returns no error, whatever the section
  holds; and since the default for \<open>files\<close> is the empty mapping, a \<open>files\<close> entry of a
  user section never changes the result of validating that section, whatever lies below it.
\<close>

theorem empty_schema_exemption:
  "validate_config_section config (PDict []) path = Inr []
   \<and> validate_config_section (PDict (xs @ (''files'', v) # ys)) default_section path
       = validate_config_section (PDict (xs @ ys)) default_section path"
proof -
  have "validate_items (xs @ (''files'', v) # ys) default_section path
          = validate_items (xs @ ys) default_section path"
    by (simp only: validate_items_append[of xs] validate_files_item)
  then show ?thesis by simp
qed

theorem empty_schema_exemption_witness:
  "validate_config_section (PDict [(''anything'', PInt 1)]) (PDict []) [''files''] = Inr []
   \<and> validate_config_section
       (PDict ([(''enable'', PBool True)]
          @ (''files'', PDict [(''pkg/_version.py'', PDict [(''bogus'', PBool True)])]) # []))
       default_section [''tool'', ''poetry-dynamic-versioning'']
     = Inr []"
  using empty_schema_exemption[where config = "PDict [(''anything'', PInt 1)]"
      and path = "[''files'']" and xs = "[]" and v = PNone and ys = "[]"]
    empty_schema_exemption[where config = PNone and xs = "[(''enable'', PBool True)]"
      and v = "PDict [(''pkg/_version.py'', PDict [(''bogus'', PBool True)])]" and ys = "[]"
      and path = "[''tool'', ''poetry-dynamic-versioning'']"]
  by (simp add: default_section_def)

section \<open>Properties of the version resolution\<close>

lemma andthen_lift [simp]: "andthen (lift r) f s = (case r of Inl e \<Rightarrow> (Inl e, s) | Inr a \<Rightarrow> f a s)"
  by (simp add: andthen_def lift_def split: sum.splits)

lemma andthen_ret [simp]: "andthen (ret x) f s = f x s"
  by (simp add: andthen_def ret_def)

lemma andthen_if: "andthen (if c then m1 else m2) f = (if c then andthen m1 f else andthen m2 f)"
  by simp

lemma andthen_apply:
  "m s = (r, s') \<Longrightarrow> andthen m f s = (case r of Inl e \<Rightarrow> (Inl e, s') | Inr a \<Rightarrow> f a s')"
  by (simp add: andthen_def split: sum.splits)









section \<open>Properties of the overrides\<close>

lemma str_contains_single: "str_contains s [c] \<longleftrightarrow> c \<in> set s"
  by (induction s) auto

lemma find_override_map_of:
  "find_override pairs n =
     map_of (map (\<lambda>pair. (py_strip (takeWhile (\<lambda>c. c \<noteq> CHR ''='') pair),
                  py_strip (tl (dropWhile (\<lambda>c. c \<noteq> CHR ''='') pair))))
       (filter (\<lambda>pair. CHR ''='' \<in> set pair) pairs)) n"
  by (induction pairs) (auto simp: str_contains_single split_once_def)

text \<open>
  C4. For a project name the result is the value of the first pair of the override variable
  whose name is the project's, whatever the bypass variable holds; without such a pair (or
  without a project name, or without the override variable) it is the value of the bypass
  variable, if set. \<^verbatim>\<open>_get_version\<close> returns an override as it is and leaves the repository
  and the event trace untouched; without an override it is the resolution from the VCS.
\<close>

theorem override_precedence:
  "get_override_version (Some n) env =
     (case env OVERRIDE_ENV of
        None \<Rightarrow> env BYPASS_ENV
      | Some raw \<Rightarrow>
          (case map_of (override_pairs raw) n of Some v \<Rightarrow> Some v | None \<Rightarrow> env BYPASS_ENV))
   \<and> get_override_version None env = env BYPASS_ENV
   \<and> get_version d env config name s =
       (case get_override_version name env of
          Some v \<Rightarrow> (Inr v, s)
        | None \<Rightarrow> resolve_version d env config s)"
  by (simp add: get_override_version_def override_pairs_def find_override_map_of get_version_def
        ret_def split: option.splits)

theorem override_precedence_witness:
  "get_override_version (Some ''foo'')
     [OVERRIDE_ENV \<mapsto> ''nonsense, bar = 2.0 ,foo=9.9.9,foo=3'', BYPASS_ENV \<mapsto> ''1.0.0'']
     = Some ''9.9.9''
   \<and> get_override_version (Some ''baz'')
     [OVERRIDE_ENV \<mapsto> ''nonsense, bar = 2.0 ,foo=9.9.9,foo=3'', BYPASS_ENV \<mapsto> ''1.0.0'']
     = Some ''1.0.0''
   \<and> get_version example_dunamai
       [OVERRIDE_ENV \<mapsto> ''nonsense, bar = 2.0 ,foo=9.9.9,foo=3'', BYPASS_ENV \<mapsto> ''1.0.0'']
       example_config (Some ''bar'') (True, [])
     = (Inr ''2.0'', (True, []))"
  using override_precedence[of "''foo''"
          "[OVERRIDE_ENV \<mapsto> ''nonsense, bar = 2.0 ,foo=9.9.9,foo=3'', BYPASS_ENV \<mapsto> ''1.0.0'']"
          example_dunamai example_config "Some ''bar''" "(True, [])"]
        override_precedence[of "''baz''"
          "[OVERRIDE_ENV \<mapsto> ''nonsense, bar = 2.0 ,foo=9.9.9,foo=3'', BYPASS_ENV \<mapsto> ''1.0.0'']"
          example_dunamai example_config "Some ''bar''" "(True, [])"]
        override_precedence[of "''bar''"
          "[OVERRIDE_ENV \<mapsto> ''nonsense, bar = 2.0 ,foo=9.9.9,foo=3'', BYPASS_ENV \<mapsto> ''1.0.0'']"
          example_dunamai example_config "Some ''bar''" "(True, [])"]
  by (simp add: override_pairs_def OVERRIDE_ENV_def BYPASS_ENV_def py_strip_def is_space_def)

section \<open>Properties of the tuple encoding\<close>















section \<open>Properties of the substitution engine\<close>





section \<open>Properties of apply and revert\<close>

lemma andthen_keeps:
  assumes "\<And>s. fst (snd (m s)) = fst s" and "\<And>x s. fst (snd (f x s)) = fst s"
  shows "fst (snd (andthen m f s)) = fst s"
proof -
  obtain r s' where Pair: "m s = (r, s')" by (cases "m s")
  have "fst s' = fst s" using assms(1)[of s] Pair by simp
  then show ?thesis using Pair assms(2) by (cases r) (simp_all add: andthen_def)
qed

lemma lift_keeps: "fst (snd (lift r s)) = fst s"
  by (simp add: lift_def)

lemma ret_keeps: "fst (snd (ret x s)) = fst s"
  by (simp add: ret_def)

lemma with_fs_keeps: "fst (snd (with_fs f s)) = fst s"
  by (cases s) (simp add: with_fs_def)

lemma update_fs_keeps: "fst (snd (update_fs f s)) = fst s"
  by (cases s) (simp add: update_fs_def split: sum.splits)

lemma get_registry_keeps: "fst (snd (get_registry s)) = fst s"
  by (cases s) (simp add: get_registry_def)

lemma on_fs_keeps: "fst (snd (on_fs f s)) = fst s"
  by (cases s) (simp add: on_fs_def split: prod.splits)

lemma write_initial_files_keeps: "fst (snd (write_initial_files lib root items s)) = fst s"
proof (induction items arbitrary: s)
  case Nil
  show ?case by (simp add: ret_def)
next
  case (Cons a items)
  obtain file_name file_info where a: "a = (file_name, file_info)" by (cases a)
  show ?case unfolding a write_initial_files.simps
    by (rule andthen_keeps) (rule on_fs_keeps, rule Cons.IH)
qed

lemma apply_manifest_and_files_keeps:
  "fst (snd (apply_manifest_and_files lib version config pyproject_path retain s)) = fst s"
  unfolding apply_manifest_and_files_def
  by (intro andthen_keeps lift_keeps ret_keeps with_fs_keeps update_fs_keeps get_registry_keeps)
     (auto simp: lift_keeps write_initial_files_keeps split: pyval.splits)

lemma substitute_version_skip:
  assumes "map_of (projects st) name = Some ps" and "ps_substitutions ps \<noteq> []"
  shows "substitute_version lib name version folders (st, fs) = (Inr (), (st, fs))"
  using assms by (simp add: substitute_version_def andthen_def get_registry_def ret_def)

text \<open>
  C7. When the registry holds recorded substitutions for the project,
  \<^verbatim>\<open>_substitute_version\<close> returns at once: it writes no file and records no original
  content. A call of \<^verbatim>\<open>_apply_version\<close> for that project then does what its first part
  does, the write of the manifest and of the files with initial content, and nothing more
  (\<^verbatim>\<open>_FolderConfig.from_config\<close> is still evaluated and may raise); the registry is the one
  before the call.
\<close>

theorem apply_without_repeat:
  assumes "map_of (projects st) name = Some ps" and "ps_substitutions ps \<noteq> []"
  shows "substitute_version lib name version folders (st, fs) = (Inr (), (st, fs))
       \<and> (apply_manifest_and_files lib version config pyproject_path retain (st, fs)
            = (Inr (PStr name), (st1, fs1)) \<longrightarrow>
          st1 = st
          \<and> apply_version lib version config pyproject_path retain (st, fs)
              = (case folder_configs_from_config config (parent pyproject_path) of
                   Inl e \<Rightarrow> (Inl e, (st, fs1))
                 | Inr folders \<Rightarrow> (Inr (), (st, fs1))))"
proof (intro conjI impI)
  show "substitute_version lib name version folders (st, fs) = (Inr (), (st, fs))"
    by (rule substitute_version_skip[OF assms])
next
  assume run: "apply_manifest_and_files lib version config pyproject_path retain (st, fs)
            = (Inr (PStr name), (st1, fs1))"
  show eq: "st1 = st"
    using apply_manifest_and_files_keeps[of lib version config pyproject_path retain "(st, fs)"] run
    by simp
  show "apply_version lib version config pyproject_path retain (st, fs)
              = (case folder_configs_from_config config (parent pyproject_path) of
                   Inl e \<Rightarrow> (Inl e, (st, fs1))
                 | Inr folders \<Rightarrow> (Inr (), (st, fs1)))"
    unfolding apply_version_def andthen_apply[where m = "apply_manifest_and_files lib version config pyproject_path retain", OF run]
    using substitute_version_skip[OF assms, of lib version _ fs1] eq
    by (simp add: andthen_def lift_def split: sum.splits)
qed

theorem apply_without_repeat_witness:
  "map_of (projects (example_registry [([''proj'', ''pkg'', ''__init__.py''], version_line ''0.0.0'')])) ''demo''
     = Some \<lparr>ps_path = [''proj'', ''pyproject.toml''], ps_original_version = ''0.0.0'',
         ps_version = ''1.2.3'', ps_substitutions = [([''proj'', ''pkg'', ''__init__.py''], version_line ''0.0.0'')]\<rparr>
   \<and> apply_manifest_and_files (example_lib (example_table [])) ''1.2.4'' default_section
           [''proj'', ''pyproject.toml''] False
           (example_registry [([''proj'', ''pkg'', ''__init__.py''], version_line ''0.0.0'')],
            example_tree ''1.2.3 disabled'' [([''proj'', ''pkg'', ''__init__.py''], version_line ''1.2.3'')])
       = (Inr (PStr ''demo''),
           (example_registry [([''proj'', ''pkg'', ''__init__.py''], version_line ''0.0.0'')],
            example_tree ''1.2.4 disabled'' [([''proj'', ''pkg'', ''__init__.py''], version_line ''1.2.3'')]))
   \<and> apply_version (example_lib (example_table [])) ''1.2.4'' default_section
           [''proj'', ''pyproject.toml''] False
           (example_registry [([''proj'', ''pkg'', ''__init__.py''], version_line ''0.0.0'')],
            example_tree ''1.2.3 disabled'' [([''proj'', ''pkg'', ''__init__.py''], version_line ''1.2.3'')])
       = (Inr (),
           (example_registry [([''proj'', ''pkg'', ''__init__.py''], version_line ''0.0.0'')],
            example_tree ''1.2.4 disabled'' [([''proj'', ''pkg'', ''__init__.py''], version_line ''1.2.3'')]))"
proof -
  let ?subs = "[([''proj'', ''pkg'', ''__init__.py''], version_line ''0.0.0'')]"
  let ?ps = "\<lparr>ps_path = [''proj'', ''pyproject.toml''], ps_original_version = ''0.0.0'',
         ps_version = ''1.2.3'', ps_substitutions = ?subs\<rparr>"
  let ?fs = "example_tree ''1.2.3 disabled'' [([''proj'', ''pkg'', ''__init__.py''], version_line ''1.2.3'')]"
  let ?fs1 = "example_tree ''1.2.4 disabled'' [([''proj'', ''pkg'', ''__init__.py''], version_line ''1.2.3'')]"
  have h1: "map_of (projects (example_registry ?subs)) ''demo'' = Some ?ps"
    by (simp add: example_registry_def)
  have h2: "ps_substitutions ?ps \<noteq> []" by simp
  have h3: "apply_manifest_and_files (example_lib (example_table [])) ''1.2.4'' default_section
           [''proj'', ''pyproject.toml''] False (example_registry ?subs, ?fs)
       = (Inr (PStr ''demo''), (example_registry ?subs, ?fs1))"
    by code_simp
  have "case folder_configs_from_config default_section (parent [''proj'', ''pyproject.toml'']) of
          Inl e \<Rightarrow> False | Inr folders \<Rightarrow> True"
    by code_simp
  then have h4: "\<exists>folders. folder_configs_from_config default_section (parent [''proj'', ''pyproject.toml'']) = Inr folders"
    by (simp split: sum.splits)
  note t = apply_without_repeat[OF h1 h2, where lib = "example_lib (example_table [])"
      and version = "''1.2.4''" and config = default_section
      and pyproject_path = "[''proj'', ''pyproject.toml'']" and retain = False and fs = ?fs
      and ?st1.0 = "example_registry ?subs" and ?fs1.0 = ?fs1]
  from t h3 h4 have "apply_version (example_lib (example_table [])) ''1.2.4'' default_section
           [''proj'', ''pyproject.toml''] False (example_registry ?subs, ?fs)
       = (Inr (), (example_registry ?subs, ?fs1))"
    by auto
  with h1 h3 show ?thesis by blast
qed





end
